theory Spec2Isabelle
  imports Main
begin

section \<open>Values of the program\<close>

text \<open>
  \<open>events.py\<close> works on what \<open>response.json()\<close> returns: Python values built from
  \<open>None\<close>, \<open>bool\<close>, \<open>int\<close>, \<open>float\<close>, \<open>str\<close>, \<open>list\<close> and \<open>dict\<close> with string keys.

  \<^item> A \<open>str\<close> is a \<open>string\<close>, read as the UTF-8 bytes of the text. Equality, concatenation,
    the substring test and \<open>startswith\<close> agree with Python's on that reading. Where the
    program takes a str apart into characters (\<open>x[0]\<close>, a \<open>for\<close> over it, \<open>+=\<close> on a list)
    the model takes it apart into bytes, which is the same on ASCII text.
  \<^item> A \<open>float\<close> is carried as its Python \<open>repr\<close> (the text an f-string prints for it). The
    program never computes with a float: it prints it and tests its truth value.
  \<^item> A \<open>dict\<close> is an association list read with \<open>map_of\<close>: one value for a key, the
    first pair with that key.
\<close>

datatype json =
    JNull
  | JBool bool
  | JInt int
  | JFloat string
  | JStr string
  | JArr "json list"
  | JObj "(string \<times> json) list"

text \<open>The exceptions that the operations on these values raise.\<close>

datatype py_error = TypeError | KeyError | IndexError | AttributeError

type_synonym 'a result = "py_error + 'a"

text \<open>Sequencing: an exception leaves the rest of the computation out.\<close>

definition bind_result :: "'a result \<Rightarrow> ('a \<Rightarrow> 'b result) \<Rightarrow> 'b result" where
  "bind_result m f = (case m of Inl e \<Rightarrow> Inl e | Inr x \<Rightarrow> f x)"

subsection \<open>Python's operations on them\<close>

text \<open>Truth value, as \<open>if x\<close>, \<open>x and y\<close> and \<open>not x\<close> test it.\<close>

fun py_truthy :: "json \<Rightarrow> bool" where
  "py_truthy JNull = False"
| "py_truthy (JBool b) = b"
| "py_truthy (JInt i) = (i \<noteq> 0)"
| "py_truthy (JFloat r) = (r \<noteq> ''0.0'' \<and> r \<noteq> ''-0.0'')"
| "py_truthy (JStr s) = (s \<noteq> [])"
| "py_truthy (JArr xs) = (xs \<noteq> [])"
| "py_truthy (JObj kvs) = (kvs \<noteq> [])"

text \<open>\<open>s.startswith(p)\<close> and the substring test \<open>k in s\<close> on strings.\<close>

definition startswith :: "string \<Rightarrow> string \<Rightarrow> bool" where
  "startswith s p = (take (length p) s = p)"

fun py_substring :: "string \<Rightarrow> string \<Rightarrow> bool" where
  "py_substring k [] = (k = [])"
| "py_substring k (c # cs) = (startswith (c # cs) k \<or> py_substring k cs)"

text \<open>
  \<open>k in x\<close> for a string \<open>k\<close>: key membership in a dict, element membership in a list,
  substring in a str, \<open>TypeError\<close> on everything else.
\<close>

fun py_contains :: "string \<Rightarrow> json \<Rightarrow> bool result" where
  "py_contains k (JObj kvs) = Inr (map_of kvs k \<noteq> None)"
| "py_contains k (JArr xs) = Inr (JStr k \<in> set xs)"
| "py_contains k (JStr s) = Inr (py_substring k s)"
| "py_contains k JNull = Inl TypeError"
| "py_contains k (JBool b) = Inl TypeError"
| "py_contains k (JInt i) = Inl TypeError"
| "py_contains k (JFloat r) = Inl TypeError"

text \<open>
  \<open>x[k]\<close> for a string \<open>k\<close>: the value in a dict (\<open>KeyError\<close> when missing); lists and strs
  take integer indices only and the other values are not subscriptable.
\<close>

fun py_getitem :: "json \<Rightarrow> string \<Rightarrow> json result" where
  "py_getitem (JObj kvs) k = (case map_of kvs k of None \<Rightarrow> Inl KeyError | Some v \<Rightarrow> Inr v)"
| "py_getitem JNull k = Inl TypeError"
| "py_getitem (JBool b) k = Inl TypeError"
| "py_getitem (JInt i) k = Inl TypeError"
| "py_getitem (JFloat r) k = Inl TypeError"
| "py_getitem (JStr s) k = Inl TypeError"
| "py_getitem (JArr xs) k = Inl TypeError"

text \<open>
  \<open>x[0]\<close>: the first element of a list, the first character of a str (as a str of length
  one), \<open>IndexError\<close> when there is none. A dict is looked up at the key \<open>0\<close>, which no
  dict built from JSON has.
\<close>

fun py_getitem0 :: "json \<Rightarrow> json result" where
  "py_getitem0 (JArr []) = Inl IndexError"
| "py_getitem0 (JArr (v # vs)) = Inr v"
| "py_getitem0 (JStr []) = Inl IndexError"
| "py_getitem0 (JStr (c # cs)) = Inr (JStr [c])"
| "py_getitem0 (JObj kvs) = Inl KeyError"
| "py_getitem0 JNull = Inl TypeError"
| "py_getitem0 (JBool b) = Inl TypeError"
| "py_getitem0 (JInt i) = Inl TypeError"
| "py_getitem0 (JFloat r) = Inl TypeError"

text \<open>\<open>x.get(k, d)\<close>: only a dict has the method.\<close>

fun py_get :: "json \<Rightarrow> string \<Rightarrow> json \<Rightarrow> json result" where
  "py_get (JObj kvs) k d = Inr (case map_of kvs k of None \<Rightarrow> d | Some v \<Rightarrow> v)"
| "py_get JNull k d = Inl AttributeError"
| "py_get (JBool b) k d = Inl AttributeError"
| "py_get (JInt i) k d = Inl AttributeError"
| "py_get (JFloat r) k d = Inl AttributeError"
| "py_get (JStr s) k d = Inl AttributeError"
| "py_get (JArr xs) k d = Inl AttributeError"

text \<open>\<open>len(x)\<close>: defined on strs, lists and dicts.\<close>

fun py_len :: "json \<Rightarrow> nat result" where
  "py_len (JStr s) = Inr (length s)"
| "py_len (JArr xs) = Inr (length xs)"
| "py_len (JObj kvs) = Inr (length kvs)"
| "py_len JNull = Inl TypeError"
| "py_len (JBool b) = Inl TypeError"
| "py_len (JInt i) = Inl TypeError"
| "py_len (JFloat r) = Inl TypeError"

text \<open>\<open>s.lower()\<close>: only a str has the method. ASCII capitals are mapped to small letters.\<close>

definition lower_char :: "char \<Rightarrow> char" where
  "lower_char c =
     (case map_of (zip ''ABCDEFGHIJKLMNOPQRSTUVWXYZ'' ''abcdefghijklmnopqrstuvwxyz'') c of
        Some l \<Rightarrow> l
      | None \<Rightarrow> c)"

fun py_lower :: "json \<Rightarrow> string result" where
  "py_lower (JStr s) = Inr (map lower_char s)"
| "py_lower JNull = Inl AttributeError"
| "py_lower (JBool b) = Inl AttributeError"
| "py_lower (JInt i) = Inl AttributeError"
| "py_lower (JFloat r) = Inl AttributeError"
| "py_lower (JArr xs) = Inl AttributeError"
| "py_lower (JObj kvs) = Inl AttributeError"

text \<open>\<open>sep.join(xs)\<close>: every item must be a str.\<close>

fun join_strs :: "string \<Rightarrow> string list \<Rightarrow> string" where
  "join_strs sep [] = []"
| "join_strs sep [s] = s"
| "join_strs sep (s # t # ss) = s @ sep @ join_strs sep (t # ss)"

fun str_items :: "json list \<Rightarrow> string list result" where
  "str_items [] = Inr []"
| "str_items (JStr s # vs) = bind_result (str_items vs) (\<lambda>ss. Inr (s # ss))"
| "str_items (v # vs) = Inl TypeError"

definition py_join :: "string \<Rightarrow> json list \<Rightarrow> string result" where
  "py_join sep vs = bind_result (str_items vs) (\<lambda>ss. Inr (join_strs sep ss))"

text \<open>Decimal text of an integer, as \<open>str\<close> prints it.\<close>

definition digit_char :: "nat \<Rightarrow> char" where
  "digit_char d = ''0123456789'' ! d"

fun str_of_nat :: "nat \<Rightarrow> string" where
  "str_of_nat n =
     (if n < 10 then [digit_char n] else str_of_nat (n div 10) @ [digit_char (n mod 10)])"

definition str_of_int :: "int \<Rightarrow> string" where
  "str_of_int i = (if i < 0 then CHR ''-'' # str_of_nat (nat (- i)) else str_of_nat (nat i))"

text \<open>
  What an f-string prints for a value, \<open>f"{x}"\<close>. A list or a dict prints as its \<open>repr\<close>,
  which is taken as a parameter \<open>rp\<close>: no property below depends on it.
\<close>

fun py_str :: "(json \<Rightarrow> string) \<Rightarrow> json \<Rightarrow> string" where
  "py_str rp (JStr s) = s"
| "py_str rp JNull = ''None''"
| "py_str rp (JBool b) = (if b then ''True'' else ''False'')"
| "py_str rp (JInt i) = str_of_int i"
| "py_str rp (JFloat r) = r"
| "py_str rp (JArr xs) = rp (JArr xs)"
| "py_str rp (JObj kvs) = rp (JObj kvs)"

text \<open>
  \<open>x += s\<close> for a string \<open>s\<close>: a str is extended by \<open>s\<close>, a list by the characters of \<open>s\<close>;
  no other value supports it.
\<close>

fun py_iadd_str :: "json \<Rightarrow> string \<Rightarrow> json result" where
  "py_iadd_str (JStr d) s = Inr (JStr (d @ s))"
| "py_iadd_str (JArr xs) s = Inr (JArr (xs @ map (\<lambda>c. JStr [c]) s))"
| "py_iadd_str JNull s = Inl TypeError"
| "py_iadd_str (JBool b) s = Inl TypeError"
| "py_iadd_str (JInt i) s = Inl TypeError"
| "py_iadd_str (JFloat r) s = Inl TypeError"
| "py_iadd_str (JObj kvs) s = Inl TypeError"

text \<open>
  \<open>for x in xs\<close>: the elements of a list, the characters of a str, the keys of a dict;
  the other values are not iterable.
\<close>

fun py_iter :: "json \<Rightarrow> json list result" where
  "py_iter (JArr xs) = Inr xs"
| "py_iter (JStr s) = Inr (map (\<lambda>c. JStr [c]) s)"
| "py_iter (JObj kvs) = Inr (map (\<lambda>kv. JStr (fst kv)) kvs)"
| "py_iter JNull = Inl TypeError"
| "py_iter (JBool b) = Inl TypeError"
| "py_iter (JInt i) = Inl TypeError"
| "py_iter (JFloat r) = Inl TypeError"

text \<open>\<open>a and b\<close> on conditions: \<open>b\<close> is evaluated only when \<open>a\<close> holds.\<close>

definition py_and :: "bool result \<Rightarrow> bool result \<Rightarrow> bool result" where
  "py_and a b = bind_result a (\<lambda>x. if x then b else Inr False)"

text \<open>\<open>k in x and x[k]\<close>, the test the program makes before it reads a nested field.\<close>

definition has_truthy :: "string \<Rightarrow> json \<Rightarrow> bool result" where
  "has_truthy k x =
     py_and (py_contains k x) (bind_result (py_getitem x k) (\<lambda>v. Inr (py_truthy v)))"

section \<open>Response Extractor\<close>

text \<open>
  \<^verbatim>\<open>
  def extract_events(data):
      events = []
      if "_embedded" in data and "events" in data["_embedded"]:
          events = data["_embedded"]["events"]
      return events
  \<close>
\<close>

definition extract_events :: "json \<Rightarrow> json result" where
  "extract_events data =
     bind_result (py_contains ''_embedded'' data) (\<lambda>has_embedded.
       if has_embedded then
         bind_result (py_getitem data ''_embedded'') (\<lambda>embedded.
         bind_result (py_contains ''events'' embedded) (\<lambda>has_events.
           if has_events then
             bind_result (py_getitem data ''_embedded'') (\<lambda>embedded'.
               py_getitem embedded' ''events'')
           else Inr (JArr [])))
       else Inr (JArr []))"

section \<open>Event Formatter\<close>

text \<open>
  \<open>format_event\<close> builds six pieces of text, each empty unless the event has the field,
  and then puts them after the header. Each piece is one definition here, in the order in
  which the source computes them; an exception in one of them ends \<open>format_event\<close>.
\<close>

text \<open>
  \<^verbatim>\<open>
  date_info = ""
  if "dates" in event and "start" in event["dates"]:
      start_date = event["dates"]["start"]
      if "localDate" in start_date:
          date = start_date["localDate"]
          if "localTime" in start_date:
              date += f" {start_date['localTime']}"
          date_info = f"Date: {date}\n"
  \<close>
\<close>

definition date_info :: "(json \<Rightarrow> string) \<Rightarrow> json \<Rightarrow> string result" where
  "date_info rp event =
     bind_result
       (py_and (py_contains ''dates'' event)
               (bind_result (py_getitem event ''dates'') (py_contains ''start'')))
     (\<lambda>has_start.
       if has_start then
         bind_result (py_getitem event ''dates'') (\<lambda>dates.
         bind_result (py_getitem dates ''start'') (\<lambda>start_date.
         bind_result (py_contains ''localDate'' start_date) (\<lambda>has_date.
           if has_date then
             bind_result (py_getitem start_date ''localDate'') (\<lambda>date.
             bind_result (py_contains ''localTime'' start_date) (\<lambda>has_time.
             bind_result
               (if has_time then
                  bind_result (py_getitem start_date ''localTime'') (\<lambda>local_time.
                    py_iadd_str date ('' '' @ py_str rp local_time))
                else Inr date)
             (\<lambda>date'. Inr (''Date: '' @ py_str rp date' @ ''\<newline>''))))
           else Inr [])))
       else Inr [])"

text \<open>
  \<^verbatim>\<open>
  city = venue.get("city", {}).get("name", "")
  \<close>
  and the same for \<open>state\<close> and \<open>country\<close>.
\<close>

definition venue_part :: "json \<Rightarrow> string \<Rightarrow> json result" where
  "venue_part venue k = bind_result (py_get venue k (JObj [])) (\<lambda>part. py_get part ''name'' (JStr []))"

text \<open>
  \<^verbatim>\<open>
  venue_info = ""
  if "embedded" in event and "_embedded" in event["embedded"] \
          and "venues" in event["embedded"]["_embedded"]:
      venues = event["embedded"]["_embedded"]["venues"]
      if venues and len(venues) > 0:
          venue = venues[0]
          venue_name = venue.get("name", "Unknown Venue")
          city = ...; state = ...; country = ...
          location = ", ".join([part for part in [city, state, country] if part])
          venue_info = f"Venue: {venue_name}, {location}\n"
  \<close>
\<close>

definition venue_info :: "(json \<Rightarrow> string) \<Rightarrow> json \<Rightarrow> string result" where
  "venue_info rp event =
     bind_result
       (py_and (py_contains ''embedded'' event)
          (py_and (bind_result (py_getitem event ''embedded'') (py_contains ''_embedded''))
                  (bind_result (py_getitem event ''embedded'') (\<lambda>e.
                   bind_result (py_getitem e ''_embedded'') (py_contains ''venues'')))))
     (\<lambda>has_venues.
       if has_venues then
         bind_result (py_getitem event ''embedded'') (\<lambda>e.
         bind_result (py_getitem e ''_embedded'') (\<lambda>e'.
         bind_result (py_getitem e' ''venues'') (\<lambda>venues.
         bind_result
           (py_and (Inr (py_truthy venues)) (bind_result (py_len venues) (\<lambda>n. Inr (0 < n))))
         (\<lambda>nonempty.
           if nonempty then
             bind_result (py_getitem0 venues) (\<lambda>venue.
             bind_result (py_get venue ''name'' (JStr ''Unknown Venue'')) (\<lambda>venue_name.
             bind_result (venue_part venue ''city'') (\<lambda>city.
             bind_result (venue_part venue ''state'') (\<lambda>state.
             bind_result (venue_part venue ''country'') (\<lambda>country.
             bind_result (py_join '', '' (filter py_truthy [city, state, country])) (\<lambda>location.
               Inr (''Venue: '' @ py_str rp venue_name @ '', '' @ location @ ''\<newline>'')))))))
           else Inr []))))
       else Inr [])"

text \<open>
  \<^verbatim>\<open>
  price_info = ""
  if "priceRanges" in event:
      price_ranges = event["priceRanges"]
      if price_ranges and len(price_ranges) > 0:
          min_price = price_ranges[0].get("min")
          max_price = price_ranges[0].get("max")
          currency = price_ranges[0].get("currency", "USD")
          if min_price and max_price:
              price_info = f"Price Range: {min_price}-{max_price} {currency}\n"
          elif min_price:
              price_info = f"Starting Price: {min_price} {currency}\n"
  \<close>
\<close>

definition price_info :: "(json \<Rightarrow> string) \<Rightarrow> json \<Rightarrow> string result" where
  "price_info rp event =
     bind_result (py_contains ''priceRanges'' event) (\<lambda>has_prices.
       if has_prices then
         bind_result (py_getitem event ''priceRanges'') (\<lambda>price_ranges.
         bind_result
           (py_and (Inr (py_truthy price_ranges))
                   (bind_result (py_len price_ranges) (\<lambda>n. Inr (0 < n))))
         (\<lambda>nonempty.
           if nonempty then
             bind_result (py_getitem0 price_ranges) (\<lambda>first.
             bind_result (py_get first ''min'' JNull) (\<lambda>min_price.
             bind_result (py_get first ''max'' JNull) (\<lambda>max_price.
             bind_result (py_get first ''currency'' (JStr ''USD'')) (\<lambda>currency.
               if py_truthy min_price \<and> py_truthy max_price then
                 Inr (''Price Range: '' @ py_str rp min_price @ ''-'' @ py_str rp max_price
                      @ '' '' @ py_str rp currency @ ''\<newline>'')
               else if py_truthy min_price then
                 Inr (''Starting Price: '' @ py_str rp min_price
                      @ '' '' @ py_str rp currency @ ''\<newline>'')
               else Inr []))))
           else Inr []))
       else Inr [])"

text \<open>
  The chain of comparisons of \<open>status_code\<close>, with the label for each known code. It is
  written twice in the source, in \<open>format_event\<close> and in \<open>check_ticket_availability\<close>.
\<close>

definition status_label :: "json \<Rightarrow> string option" where
  "status_label status_code =
     (if status_code = JStr ''onsale'' then Some ''On Sale''
      else if status_code = JStr ''offsale'' then Some ''Off Sale''
      else if status_code = JStr ''cancelled'' then Some ''Cancelled''
      else if status_code = JStr ''postponed'' then Some ''Postponed''
      else if status_code = JStr ''rescheduled'' then Some ''Rescheduled''
      else None)"

text \<open>
  \<^verbatim>\<open>
  ticket_info = ""
  if "dates" in event and "status" in event["dates"]:
      status = event["dates"]["status"]
      status_code = status.get("code", "")
      if status_code == "onsale":
          ticket_info = "Ticket Status: On Sale\n"
      elif ...
  \<close>
\<close>

definition ticket_info :: "json \<Rightarrow> string result" where
  "ticket_info event =
     bind_result
       (py_and (py_contains ''dates'' event)
               (bind_result (py_getitem event ''dates'') (py_contains ''status'')))
     (\<lambda>has_status.
       if has_status then
         bind_result (py_getitem event ''dates'') (\<lambda>dates.
         bind_result (py_getitem dates ''status'') (\<lambda>status.
         bind_result (py_get status ''code'' (JStr [])) (\<lambda>status_code.
           Inr (case status_label status_code of
                  Some label \<Rightarrow> ''Ticket Status: '' @ label @ ''\<newline>''
                | None \<Rightarrow> []))))
       else Inr [])"

text \<open>
  \<^verbatim>\<open>
  url_info = ""
  if "url" in event:
      url_info = f"Tickets: {event['url']}\n"
  \<close>
\<close>

definition url_info :: "(json \<Rightarrow> string) \<Rightarrow> json \<Rightarrow> string result" where
  "url_info rp event =
     bind_result (py_contains ''url'' event) (\<lambda>has_url.
       if has_url then
         bind_result (py_getitem event ''url'') (\<lambda>url.
           Inr (''Tickets: '' @ py_str rp url @ ''\<newline>''))
       else Inr [])"

text \<open>
  One of the three blocks that fill \<open>segments\<close>, for the key \<open>k\<close> (\<open>segment\<close>, \<open>genre\<close>,
  \<open>subGenre\<close>); the result is what the block appends.
  \<^verbatim>\<open>
  if "segment" in classification and classification["segment"]:
      segment_name = classification["segment"].get("name")
      if segment_name and segment_name.lower() != "undefined":
          segments.append(segment_name)
  \<close>
\<close>

definition genre_part :: "json \<Rightarrow> string \<Rightarrow> json list result" where
  "genre_part classification k =
     bind_result (has_truthy k classification) (\<lambda>present.
       if present then
         bind_result (py_getitem classification k) (\<lambda>component.
         bind_result (py_get component ''name'' JNull) (\<lambda>name.
         bind_result
           (py_and (Inr (py_truthy name))
                   (bind_result (py_lower name) (\<lambda>l. Inr (l \<noteq> ''undefined''))))
         (\<lambda>keep. Inr (if keep then [name] else []))))
       else Inr [])"

text \<open>
  \<^verbatim>\<open>
  genre_info = ""
  if "classifications" in event and event["classifications"]:
      classification = event["classifications"][0]
      segments = []
      ... the three blocks ...
      if segments:
          genre_info = f"Genre: {' | '.join(segments)}\n"
  \<close>
\<close>

definition genre_info :: "json \<Rightarrow> string result" where
  "genre_info event =
     bind_result (has_truthy ''classifications'' event) (\<lambda>present.
       if present then
         bind_result (py_getitem event ''classifications'') (\<lambda>classifications.
         bind_result (py_getitem0 classifications) (\<lambda>classification.
         bind_result (genre_part classification ''segment'') (\<lambda>s1.
         bind_result (genre_part classification ''genre'') (\<lambda>s2.
         bind_result (genre_part classification ''subGenre'') (\<lambda>s3.
           let segments = s1 @ s2 @ s3 in
           if segments \<noteq> [] then
             bind_result (py_join '' | '' segments) (\<lambda>joined.
               Inr (''Genre: '' @ joined @ ''\<newline>''))
           else Inr [])))))
       else Inr [])"

text \<open>
  The text that \<open>format_event\<close> returns, from the name and the six pieces:
  \<^verbatim>\<open>
  return f"""
  Event: {name}
  {date_info}{venue_info}{genre_info}{price_info}{ticket_info}{url_info}
  """
  \<close>
\<close>

definition event_text ::
  "string \<Rightarrow> string \<Rightarrow> string \<Rightarrow> string \<Rightarrow> string \<Rightarrow> string \<Rightarrow> string \<Rightarrow> string" where
  "event_text name date venue genre price ticket url =
     ''\<newline>Event: '' @ name @ ''\<newline>''
     @ date @ venue @ genre @ price @ ticket @ url @ ''\<newline>''"

definition format_event :: "(json \<Rightarrow> string) \<Rightarrow> json \<Rightarrow> string result" where
  "format_event rp event =
     bind_result (py_get event ''name'' (JStr ''Unknown Event'')) (\<lambda>name.
     bind_result (date_info rp event) (\<lambda>date.
     bind_result (venue_info rp event) (\<lambda>venue.
     bind_result (price_info rp event) (\<lambda>price.
     bind_result (ticket_info event) (\<lambda>ticket.
     bind_result (url_info rp event) (\<lambda>url.
     bind_result (genre_info event) (\<lambda>genre.
       Inr (event_text (py_str rp name) date venue genre price ticket url))))))))"

section \<open>Request Gateway\<close>

text \<open>
  What \<open>client.get\<close>, \<open>raise_for_status\<close> and \<open>response.json()\<close> together do with one
  request: the decoded body, or one of the exceptions that \<open>make_ticketmaster_request\<close>
  catches (\<open>HTTPStatusError\<close> with the status code, \<open>RequestError\<close>, any other
  \<open>Exception\<close> with its text).
\<close>

datatype http_outcome =
    Response json
  | HTTPStatusError int
  | RequestError
  | OtherException string

type_synonym params = "string \<rightharpoonup> json"

text \<open>
  The surroundings of a call: the key read from the environment at start-up, the remote
  service as a function of the request, and Python's \<open>repr\<close> of lists and dicts.
\<close>

record env =
  api_key :: string
  client_get :: "string \<Rightarrow> params \<Rightarrow> http_outcome"
  container_repr :: "json \<Rightarrow> string"

definition TICKETMASTER_API_BASE :: string where
  "TICKETMASTER_API_BASE = ''https://app.ticketmaster.com/discovery/v2''"

text \<open>
  The gateway writes the key into the caller's dict before it sends it, so the model
  returns the dict as it is after the call, next to the URL requested and the result.
  \<^verbatim>\<open>
  params["apikey"] = TICKETMASTER_API_KEY
  url = f"{TICKETMASTER_API_BASE}/{endpoint}"
  async with httpx.AsyncClient() as client:
      try:
          response = await client.get(url, params=params, timeout=30.0)
          response.raise_for_status()
          return response.json()
      except httpx.HTTPStatusError as e:
          if e.response.status_code == 429:
              return {"error": "Rate limit exceeded. Please try again later."}
          elif e.response.status_code == 401:
              return {"error": "Unauthorized. Please check your API key."}
          else:
              return {"error": f"HTTP error: {e.response.status_code}"}
      except httpx.RequestError:
          return {"error": "Failed to connect to Ticketmaster API."}
      except Exception as e:
          return {"error": f"An unexpected error occurred: {str(e)}"}
  \<close>
\<close>

record gateway_call =
  call_params :: params
  call_url :: string
  call_data :: json

definition make_ticketmaster_request :: "env \<Rightarrow> string \<Rightarrow> params \<Rightarrow> gateway_call" where
  "make_ticketmaster_request env endpoint params =
     (let params' = params(''apikey'' \<mapsto> JStr (api_key env));
          url' = TICKETMASTER_API_BASE @ ''/'' @ endpoint
      in \<lparr>call_params = params',
          call_url = url',
          call_data =
            (case client_get env url' params' of
               Response body \<Rightarrow> body
             | HTTPStatusError status_code \<Rightarrow>
                 if status_code = 429 then
                   JObj [(''error'', JStr ''Rate limit exceeded. Please try again later.'')]
                 else if status_code = 401 then
                   JObj [(''error'', JStr ''Unauthorized. Please check your API key.'')]
                 else
                   JObj [(''error'', JStr (''HTTP error: '' @ str_of_int status_code))]
             | RequestError \<Rightarrow>
                 JObj [(''error'', JStr ''Failed to connect to Ticketmaster API.'')]
             | OtherException msg \<Rightarrow>
                 JObj [(''error'', JStr (''An unexpected error occurred: '' @ msg))])\<rparr>)"

section \<open>Tool Entry Points\<close>

text \<open>
  A run of a tool: the request that left (URL and parameters, key included) and what the
  tool returned, a string or the exception that escaped it.
\<close>

record tool_run =
  sent_url :: string
  sent_params :: params
  returned :: "string result"

text \<open>\<open>params = {k: v for k, v in params.items() if v is not None}\<close>\<close>

definition remove_none :: "params \<Rightarrow> params" where
  "remove_none params = (\<lambda>k. case params k of Some JNull \<Rightarrow> None | v \<Rightarrow> v)"

text \<open>An optional string argument as the value stored in the dict.\<close>

definition opt_str :: "string option \<Rightarrow> json" where
  "opt_str a = (case a of None \<Rightarrow> JNull | Some s \<Rightarrow> JStr s)"

text \<open>\<open>[format_event(event) for event in events]\<close>, on the items of \<open>events\<close>.\<close>

fun format_events :: "(json \<Rightarrow> string) \<Rightarrow> json list \<Rightarrow> string list result" where
  "format_events rp [] = Inr []"
| "format_events rp (event # events) =
     bind_result (format_event rp event) (\<lambda>s.
     bind_result (format_events rp events) (\<lambda>ss. Inr (s # ss)))"

text \<open>
  The four search tools end with the same statements, up to the two texts \<open>none_found\<close>
  and \<open>header\<close>; for \<open>search_events_by_artist\<close>:
  \<^verbatim>\<open>
  if "error" in data:
      return f"Error: {data['error']}"
  events = extract_events(data)
  if not events:
      return f"No upcoming events found for artist: {artist}"
  formatted_events = [format_event(event) for event in events]
  return f"Upcoming events for {artist}:\n\n" + "\n".join(formatted_events)
  \<close>
\<close>

definition render_events :: "(json \<Rightarrow> string) \<Rightarrow> json \<Rightarrow> string \<Rightarrow> string \<Rightarrow> string result" where
  "render_events rp data' none_found header =
     bind_result (py_contains ''error'' data') (\<lambda>failed.
       if failed then
         bind_result (py_getitem data' ''error'') (\<lambda>msg. Inr (''Error: '' @ py_str rp msg))
       else
         bind_result (extract_events data') (\<lambda>events.
           if \<not> py_truthy events then Inr none_found
           else
             bind_result (py_iter events) (\<lambda>items.
             bind_result (format_events rp items) (\<lambda>formatted_events.
               Inr (header @ join_strs ''\<newline>'' formatted_events)))))"

definition run_of :: "gateway_call \<Rightarrow> string result \<Rightarrow> tool_run" where
  "run_of call r = \<lparr>sent_url = call_url call, sent_params = call_params call, returned = r\<rparr>"

text \<open>
  \<^verbatim>\<open>
  params = {"keyword": artist, "size": size, "sort": "date,asc"}
  data = await make_ticketmaster_request("events.json", params)
  \<close>
\<close>

definition search_events_by_artist :: "env \<Rightarrow> string \<Rightarrow> int \<Rightarrow> tool_run" where
  "search_events_by_artist env artist size' =
     (let params = [''keyword'' \<mapsto> JStr artist, ''size'' \<mapsto> JInt size',
                    ''sort'' \<mapsto> JStr ''date,asc''];
          call = make_ticketmaster_request env ''events.json'' params
      in run_of call
           (render_events (container_repr env) (call_data call)
              (''No upcoming events found for artist: '' @ artist)
              (''Upcoming events for '' @ artist @ '':\<newline>\<newline>'')))"

text \<open>
  \<^verbatim>\<open>
  params = {
      "venueId": venue if venue.startswith("KovZ") else None,
      "keyword": None if venue.startswith("KovZ") else venue,
      "size": size,
      "sort": "date,asc"
  }
  params = {k: v for k, v in params.items() if v is not None}
  data = await make_ticketmaster_request("events.json", params)
  \<close>
\<close>

definition search_events_by_venue :: "env \<Rightarrow> string \<Rightarrow> int \<Rightarrow> tool_run" where
  "search_events_by_venue env venue size' =
     (let params = [''venueId'' \<mapsto> (if startswith venue ''KovZ'' then JStr venue else JNull),
                    ''keyword'' \<mapsto> (if startswith venue ''KovZ'' then JNull else JStr venue),
                    ''size'' \<mapsto> JInt size',
                    ''sort'' \<mapsto> JStr ''date,asc''];
          params = remove_none params;
          call = make_ticketmaster_request env ''events.json'' params
      in run_of call
           (render_events (container_repr env) (call_data call)
              (''No upcoming events found for venue: '' @ venue)
              (''Upcoming events at '' @ venue @ '':\<newline>\<newline>'')))"

text \<open>
  \<^verbatim>\<open>
  location = city
  if state:
      location = f"{city},{state}"
  params = {"city": city, "stateCode": state, "countryCode": country,
            "size": size, "sort": "date,asc"}
  params = {k: v for k, v in params.items() if v is not None}
  \<close>
\<close>

definition search_events_by_location ::
  "env \<Rightarrow> string \<Rightarrow> string option \<Rightarrow> string \<Rightarrow> int \<Rightarrow> tool_run" where
  "search_events_by_location env city state country size' =
     (let location =
            (case state of
               None \<Rightarrow> city
             | Some st \<Rightarrow> if py_truthy (JStr st) then city @ '','' @ st else city);
          params = [''city'' \<mapsto> JStr city, ''stateCode'' \<mapsto> opt_str state,
                    ''countryCode'' \<mapsto> JStr country, ''size'' \<mapsto> JInt size',
                    ''sort'' \<mapsto> JStr ''date,asc''];
          params = remove_none params;
          call = make_ticketmaster_request env ''events.json'' params
      in run_of call
           (render_events (container_repr env) (call_data call)
              (''No upcoming events found in '' @ location)
              (''Upcoming events in '' @ location @ '':\<newline>\<newline>'')))"

text \<open>
  \<^verbatim>\<open>
  params = {}
  data = await make_ticketmaster_request(f"events/{event_id}.json", params)
  if "error" in data:
      return f"Error: {data['error']}"
  return format_event(data)
  \<close>
\<close>

definition get_event_details :: "env \<Rightarrow> string \<Rightarrow> tool_run" where
  "get_event_details env event_id =
     (let call = make_ticketmaster_request env (''events/'' @ event_id @ ''.json'') Map.empty;
          rp = container_repr env
      in run_of call
           (bind_result (py_contains ''error'' (call_data call)) (\<lambda>failed.
              if failed then
                bind_result (py_getitem (call_data call) ''error'') (\<lambda>msg.
                  Inr (''Error: '' @ py_str rp msg))
              else format_event rp (call_data call))))"

text \<open>
  \<^verbatim>\<open>
  params = {"classificationName": genre, "city": city, "size": size, "sort": "date,asc"}
  params = {k: v for k, v in params.items() if v is not None}
  ...
  if not events:
      location_info = f" in {city}" if city else ""
      return f"No upcoming {genre} events found{location_info}"
  ...
  location_info = f" in {city}" if city else ""
  return f"Upcoming {genre} events{location_info}:\n\n" + "\n".join(formatted_events)
  \<close>
\<close>

definition search_events_by_genre :: "env \<Rightarrow> string \<Rightarrow> string option \<Rightarrow> int \<Rightarrow> tool_run" where
  "search_events_by_genre env genre city size' =
     (let params = [''classificationName'' \<mapsto> JStr genre, ''city'' \<mapsto> opt_str city,
                    ''size'' \<mapsto> JInt size', ''sort'' \<mapsto> JStr ''date,asc''];
          params = remove_none params;
          call = make_ticketmaster_request env ''events.json'' params;
          location_info =
            (case city of
               None \<Rightarrow> []
             | Some c \<Rightarrow> if py_truthy (JStr c) then '' in '' @ c else [])
      in run_of call
           (render_events (container_repr env) (call_data call)
              (''No upcoming '' @ genre @ '' events found'' @ location_info)
              (''Upcoming '' @ genre @ '' events'' @ location_info @ '':\<newline>\<newline>'')))"

text \<open>
  The two blocks of \<open>check_ticket_availability\<close> that read the status and the price.
  \<^verbatim>\<open>
  ticket_status = "Unknown"
  if "dates" in data and "status" in data["dates"]:
      status = data["dates"]["status"]
      status_code = status.get("code", "")
      if status_code == "onsale":
          ticket_status = "On Sale"
      elif ...
  \<close>
\<close>

definition availability_status :: "json \<Rightarrow> string result" where
  "availability_status data' =
     bind_result
       (py_and (py_contains ''dates'' data')
               (bind_result (py_getitem data' ''dates'') (py_contains ''status'')))
     (\<lambda>has_status.
       if has_status then
         bind_result (py_getitem data' ''dates'') (\<lambda>dates.
         bind_result (py_getitem dates ''status'') (\<lambda>status.
         bind_result (py_get status ''code'' (JStr [])) (\<lambda>status_code.
           Inr (case status_label status_code of
                  Some label \<Rightarrow> label
                | None \<Rightarrow> ''Unknown''))))
       else Inr ''Unknown'')"

text \<open>
  \<^verbatim>\<open>
  price_info = "Price information not available"
  if "priceRanges" in data:
      price_ranges = data["priceRanges"]
      if price_ranges and len(price_ranges) > 0:
          min_price = price_ranges[0].get("min")
          max_price = price_ranges[0].get("max")
          currency = price_ranges[0].get("currency", "USD")
          if min_price and max_price:
              price_info = f"Price Range: {min_price}-{max_price} {currency}"
          elif min_price:
              price_info = f"Starting Price: {min_price} {currency}"
  \<close>
\<close>

definition availability_price :: "(json \<Rightarrow> string) \<Rightarrow> json \<Rightarrow> string result" where
  "availability_price rp data' =
     bind_result (py_contains ''priceRanges'' data') (\<lambda>has_prices.
       if has_prices then
         bind_result (py_getitem data' ''priceRanges'') (\<lambda>price_ranges.
         bind_result
           (py_and (Inr (py_truthy price_ranges))
                   (bind_result (py_len price_ranges) (\<lambda>n. Inr (0 < n))))
         (\<lambda>nonempty.
           if nonempty then
             bind_result (py_getitem0 price_ranges) (\<lambda>first.
             bind_result (py_get first ''min'' JNull) (\<lambda>min_price.
             bind_result (py_get first ''max'' JNull) (\<lambda>max_price.
             bind_result (py_get first ''currency'' (JStr ''USD'')) (\<lambda>currency.
               if py_truthy min_price \<and> py_truthy max_price then
                 Inr (''Price Range: '' @ py_str rp min_price @ ''-'' @ py_str rp max_price
                      @ '' '' @ py_str rp currency)
               else if py_truthy min_price then
                 Inr (''Starting Price: '' @ py_str rp min_price
                      @ '' '' @ py_str rp currency)
               else Inr ''Price information not available''))))
           else Inr ''Price information not available''))
       else Inr ''Price information not available'')"

text \<open>
  \<^verbatim>\<open>
  params = {}
  data = await make_ticketmaster_request(f"events/{event_id}.json", params)
  if "error" in data:
      return f"Error: {data['error']}"
  ... ticket_status, price_info ...
  ticket_link = data.get("url", "No ticket link available")
  event_name = data.get("name", "Unknown Event")
  return f"""
  Ticket Availability for: {event_name}
  Status: {ticket_status}
  {price_info}
  Ticket Link: {ticket_link}
  """
  \<close>
\<close>

definition check_ticket_availability :: "env \<Rightarrow> string \<Rightarrow> tool_run" where
  "check_ticket_availability env event_id =
     (let call = make_ticketmaster_request env (''events/'' @ event_id @ ''.json'') Map.empty;
          rp = container_repr env
      in run_of call
           (bind_result (py_contains ''error'' (call_data call)) (\<lambda>failed.
              if failed then
                bind_result (py_getitem (call_data call) ''error'') (\<lambda>msg.
                  Inr (''Error: '' @ py_str rp msg))
              else
                bind_result (availability_status (call_data call)) (\<lambda>ticket_status.
                bind_result (availability_price rp (call_data call)) (\<lambda>price.
                bind_result (py_get (call_data call) ''url'' (JStr ''No ticket link available''))
                  (\<lambda>ticket_link.
                bind_result (py_get (call_data call) ''name'' (JStr ''Unknown Event''))
                  (\<lambda>event_name.
                  Inr (''\<newline>Ticket Availability for: '' @ py_str rp event_name
                       @ ''\<newline>Status: '' @ ticket_status
                       @ ''\<newline>'' @ price
                       @ ''\<newline>Ticket Link: '' @ py_str rp ticket_link
                       @ ''\<newline>''))))))))"

section \<open>Vocabulary of the properties\<close>

text \<open>The outcome of the request that a run of a tool sent.\<close>

definition answered :: "env \<Rightarrow> tool_run \<Rightarrow> http_outcome" where
  "answered env r = client_get env (sent_url r) (sent_params r)"

text \<open>
  The value at a path of keys in nested objects, \<open>None\<close> when a key is missing or a
  value on the way is not an object.
\<close>

fun lookup_path :: "string list \<Rightarrow> json \<Rightarrow> json option" where
  "lookup_path [] v = Some v"
| "lookup_path (k # ks) (JObj kvs) =
     (case map_of kvs k of None \<Rightarrow> None | Some v \<Rightarrow> lookup_path ks v)"
| "lookup_path (k # ks) v = None"

text \<open>
  A list field that the record does not have: the path leads to nothing, or to the empty
  list.
\<close>

definition missing_or_empty :: "string list \<Rightarrow> json \<Rightarrow> bool" where
  "missing_or_empty path event =
     (case lookup_path path event of
        None \<Rightarrow> True
      | Some v \<Rightarrow> v = JArr [])"

text \<open>
  The first classification of an event, as the list of its pairs; no pair when the event
  has no classification or the first one is not an object.
\<close>

definition first_classification :: "json \<Rightarrow> (string \<times> json) list" where
  "first_classification event =
     (case lookup_path [''classifications''] event of
        Some (JArr (JObj cl # rest)) \<Rightarrow> cl
      | _ \<Rightarrow> [])"

text \<open>
  The shape of an event record (section 3 of the specification): every field is
  optional, and a field that is there has the JSON type of its kind. Objects:
  \<open>dates\<close>, \<open>dates.start\<close>, \<open>dates.status\<close>, \<open>embedded\<close>, \<open>embedded._embedded\<close>, each venue
  with its \<open>city\<close>, \<open>state\<close>, \<open>country\<close>, each price range, each classification with its
  \<open>segment\<close>, \<open>genre\<close>, \<open>subGenre\<close>. Lists: \<open>venues\<close>, \<open>priceRanges\<close>, \<open>classifications\<close>.
  Strings: \<open>localDate\<close> and the \<open>name\<close> of a city, state, country, segment, genre or
  subgenre. Nothing is asked of \<open>name\<close>, \<open>url\<close>, \<open>localTime\<close>, \<open>code\<close>, \<open>min\<close>, \<open>max\<close>,
  \<open>currency\<close> and of keys that the program does not read.
\<close>

definition field_ok :: "(string \<times> json) list \<Rightarrow> string \<Rightarrow> (json \<Rightarrow> bool) \<Rightarrow> bool" where
  "field_ok kvs k ok = (case map_of kvs k of None \<Rightarrow> True | Some v \<Rightarrow> ok v)"

definition is_str :: "json \<Rightarrow> bool" where
  "is_str v = (case v of JStr s \<Rightarrow> True | _ \<Rightarrow> False)"

definition is_obj :: "json \<Rightarrow> bool" where
  "is_obj v = (case v of JObj kvs \<Rightarrow> True | _ \<Rightarrow> False)"

definition wf_named :: "json \<Rightarrow> bool" where
  "wf_named v = (case v of JObj kvs \<Rightarrow> field_ok kvs ''name'' is_str | _ \<Rightarrow> False)"

definition wf_start :: "json \<Rightarrow> bool" where
  "wf_start v = (case v of JObj kvs \<Rightarrow> field_ok kvs ''localDate'' is_str | _ \<Rightarrow> False)"

definition wf_dates :: "json \<Rightarrow> bool" where
  "wf_dates v =
     (case v of
        JObj kvs \<Rightarrow> field_ok kvs ''start'' wf_start \<and> field_ok kvs ''status'' is_obj
      | _ \<Rightarrow> False)"

definition wf_venue :: "json \<Rightarrow> bool" where
  "wf_venue v =
     (case v of
        JObj kvs \<Rightarrow> field_ok kvs ''city'' wf_named \<and> field_ok kvs ''state'' wf_named
                    \<and> field_ok kvs ''country'' wf_named
      | _ \<Rightarrow> False)"

definition wf_venues :: "json \<Rightarrow> bool" where
  "wf_venues v = (case v of JArr vs \<Rightarrow> list_all wf_venue vs | _ \<Rightarrow> False)"

definition wf_inner :: "json \<Rightarrow> bool" where
  "wf_inner v = (case v of JObj kvs \<Rightarrow> field_ok kvs ''venues'' wf_venues | _ \<Rightarrow> False)"

definition wf_embedded :: "json \<Rightarrow> bool" where
  "wf_embedded v = (case v of JObj kvs \<Rightarrow> field_ok kvs ''_embedded'' wf_inner | _ \<Rightarrow> False)"

definition wf_price_ranges :: "json \<Rightarrow> bool" where
  "wf_price_ranges v = (case v of JArr ps \<Rightarrow> list_all is_obj ps | _ \<Rightarrow> False)"

definition wf_classification :: "json \<Rightarrow> bool" where
  "wf_classification v =
     (case v of
        JObj kvs \<Rightarrow> field_ok kvs ''segment'' wf_named \<and> field_ok kvs ''genre'' wf_named
                    \<and> field_ok kvs ''subGenre'' wf_named
      | _ \<Rightarrow> False)"

definition wf_classifications :: "json \<Rightarrow> bool" where
  "wf_classifications v = (case v of JArr cs \<Rightarrow> list_all wf_classification cs | _ \<Rightarrow> False)"

definition wf_event :: "json \<Rightarrow> bool" where
  "wf_event v =
     (case v of
        JObj kvs \<Rightarrow>
          field_ok kvs ''dates'' wf_dates \<and> field_ok kvs ''embedded'' wf_embedded
          \<and> field_ok kvs ''priceRanges'' wf_price_ranges
          \<and> field_ok kvs ''classifications'' wf_classifications
      | _ \<Rightarrow> False)"

text \<open>
  The shape of the body of a search response: an object whose \<open>_embedded\<close>, when there,
  is an object whose \<open>events\<close>, when there, is a list of event records.
\<close>

definition wf_events :: "json \<Rightarrow> bool" where
  "wf_events v = (case v of JArr es \<Rightarrow> list_all wf_event es | _ \<Rightarrow> False)"

definition wf_event_list :: "json \<Rightarrow> bool" where
  "wf_event_list v = (case v of JObj kvs \<Rightarrow> field_ok kvs ''events'' wf_events | _ \<Rightarrow> False)"

definition wf_search_payload :: "json \<Rightarrow> bool" where
  "wf_search_payload v =
     (case v of JObj kvs \<Rightarrow> field_ok kvs ''_embedded'' wf_event_list | _ \<Rightarrow> False)"

text \<open>
  The name of a component (\<open>segment\<close>, \<open>genre\<close>, \<open>subGenre\<close>) of a classification object,
  when the component is an object with a string \<open>name\<close>; the names, in that order, of the
  components whose name passes a test; and the genre line for a list of names, which is
  nothing when the list is empty.
\<close>

definition component_name :: "(string \<times> json) list \<Rightarrow> string \<Rightarrow> string option" where
  "component_name cl k =
     (case map_of cl k of
        Some (JObj c) \<Rightarrow> (case map_of c ''name'' of Some (JStr n) \<Rightarrow> Some n | _ \<Rightarrow> None)
      | _ \<Rightarrow> None)"

definition names_where :: "(string \<Rightarrow> bool) \<Rightarrow> (string \<times> json) list \<Rightarrow> string list" where
  "names_where keep cl =
     concat (map (\<lambda>k. case component_name cl k of
                          Some n \<Rightarrow> if keep n then [n] else []
                        | None \<Rightarrow> [])
                 [''segment'', ''genre'', ''subGenre''])"

definition not_undefined :: "string \<Rightarrow> bool" where
  "not_undefined n = (map lower_char n \<noteq> ''undefined'')"

definition genre_line :: "string list \<Rightarrow> string" where
  "genre_line names =
     (if names = [] then [] else ''Genre: '' @ join_strs '' | '' names @ ''\<newline>'')"

text \<open>The currency of a price range object, with its default.\<close>

definition currency_of :: "(string \<times> json) list \<Rightarrow> json" where
  "currency_of pr = (case map_of pr ''currency'' of None \<Rightarrow> JStr ''USD'' | Some c \<Rightarrow> c)"

text \<open>A run whose request was answered with a body has a body of the given shape.\<close>

definition body_ok :: "(json \<Rightarrow> bool) \<Rightarrow> http_outcome \<Rightarrow> bool" where
  "body_ok shape outcome = (case outcome of Response body \<Rightarrow> shape body | _ \<Rightarrow> True)"

text \<open>
  Surroundings for the concrete instances below: a service that answers every request with
  the same outcome.
\<close>

definition fixed_env :: "http_outcome \<Rightarrow> env" where
  "fixed_env outcome =
     \<lparr>api_key = ''k3y'', client_get = (\<lambda>u p. outcome), container_repr = (\<lambda>v. ''<repr>'')\<rparr>"

section \<open>Properties\<close>

subsection \<open>Sequencing and conditions\<close>

lemma bind_result_Inr [simp]: "bind_result (Inr x) f = f x"
  by (simp add: bind_result_def)

lemma bind_result_Inl [simp]: "bind_result (Inl e) f = Inl e"
  by (simp add: bind_result_def)

lemma py_and_Inr: "py_and (Inr b) x = (if b then x else Inr False)"
  by (simp add: py_and_def)

lemma py_and_Inl: "py_and (Inl e) x = Inl e"
  by (simp add: py_and_def)

lemma py_and_bind: "py_and (bind_result m f) (bind_result m g) = bind_result m (\<lambda>v. py_and (f v) (g v))"
  by (cases m) (simp_all add: py_and_Inl)

lemma key_step:
  assumes "py_and (py_contains k x) (bind_result (py_getitem x k) f) = Inr True"
  shows "\<exists>kvs v. x = JObj kvs \<and> map_of kvs k = Some v \<and> f v = Inr True"
  using assms by (cases x) (auto simp: py_and_Inr py_and_Inl split: if_splits)

lemma getitem_Inr:
  assumes "bind_result (py_getitem x k) f = Inr (s :: string)"
  shows "\<exists>kvs v. x = JObj kvs \<and> map_of kvs k = Some v"
  using assms by (cases x) (auto split: option.splits)

lemma str_items_map: "str_items (map JStr ss) = Inr ss"
  by (induction ss) auto

lemma py_join_strs: "py_join sep (map JStr ss) = Inr (join_strs sep ss)"
  by (simp add: py_join_def str_items_map)

lemma str_items_filter:
  "str_items (filter py_truthy (map JStr ss)) = Inr (filter (\<lambda>s. s \<noteq> []) ss)"
  by (induction ss) auto

subsection \<open>What a shape gives\<close>

lemma field_okD: "field_ok kvs k ok \<Longrightarrow> map_of kvs k = Some v \<Longrightarrow> ok v"
  by (simp add: field_ok_def)

lemma is_objE: "is_obj v \<Longrightarrow> \<exists>kvs. v = JObj kvs"
  by (cases v) (simp_all add: is_obj_def)

lemma is_strE: "is_str v \<Longrightarrow> \<exists>s. v = JStr s"
  by (cases v) (simp_all add: is_str_def)

lemma wf_namedE: "wf_named v \<Longrightarrow> \<exists>kvs. v = JObj kvs \<and> field_ok kvs ''name'' is_str"
  by (cases v) (simp_all add: wf_named_def)

lemma wf_startE: "wf_start v \<Longrightarrow> \<exists>kvs. v = JObj kvs \<and> field_ok kvs ''localDate'' is_str"
  by (cases v) (simp_all add: wf_start_def)

lemma wf_datesE:
  "wf_dates v \<Longrightarrow>
   \<exists>kvs. v = JObj kvs \<and> field_ok kvs ''start'' wf_start \<and> field_ok kvs ''status'' is_obj"
  by (cases v) (simp_all add: wf_dates_def)

lemma wf_venueE:
  "wf_venue v \<Longrightarrow>
   \<exists>kvs. v = JObj kvs \<and> field_ok kvs ''city'' wf_named \<and> field_ok kvs ''state'' wf_named
         \<and> field_ok kvs ''country'' wf_named"
  by (cases v) (simp_all add: wf_venue_def)

lemma wf_venuesE: "wf_venues v \<Longrightarrow> \<exists>vs. v = JArr vs \<and> list_all wf_venue vs"
  by (cases v) (simp_all add: wf_venues_def)

lemma wf_innerE: "wf_inner v \<Longrightarrow> \<exists>kvs. v = JObj kvs \<and> field_ok kvs ''venues'' wf_venues"
  by (cases v) (simp_all add: wf_inner_def)

lemma wf_embeddedE: "wf_embedded v \<Longrightarrow> \<exists>kvs. v = JObj kvs \<and> field_ok kvs ''_embedded'' wf_inner"
  by (cases v) (simp_all add: wf_embedded_def)

lemma wf_price_rangesE: "wf_price_ranges v \<Longrightarrow> \<exists>ps. v = JArr ps \<and> list_all is_obj ps"
  by (cases v) (simp_all add: wf_price_ranges_def)

lemma wf_classificationE:
  "wf_classification v \<Longrightarrow>
   \<exists>kvs. v = JObj kvs \<and> field_ok kvs ''segment'' wf_named \<and> field_ok kvs ''genre'' wf_named
         \<and> field_ok kvs ''subGenre'' wf_named"
  by (cases v) (simp_all add: wf_classification_def)

lemma wf_classificationsE:
  "wf_classifications v \<Longrightarrow> \<exists>cs. v = JArr cs \<and> list_all wf_classification cs"
  by (cases v) (simp_all add: wf_classifications_def)

lemma wf_eventE:
  "wf_event v \<Longrightarrow>
   \<exists>kvs. v = JObj kvs \<and> field_ok kvs ''dates'' wf_dates \<and> field_ok kvs ''embedded'' wf_embedded
         \<and> field_ok kvs ''priceRanges'' wf_price_ranges
         \<and> field_ok kvs ''classifications'' wf_classifications"
  by (cases v) (simp_all add: wf_event_def)

lemma wf_eventsE: "wf_events v \<Longrightarrow> \<exists>es. v = JArr es \<and> list_all wf_event es"
  by (cases v) (simp_all add: wf_events_def)

lemma wf_event_listE: "wf_event_list v \<Longrightarrow> \<exists>kvs. v = JObj kvs \<and> field_ok kvs ''events'' wf_events"
  by (cases v) (simp_all add: wf_event_list_def)

lemma wf_search_payloadE:
  "wf_search_payload v \<Longrightarrow> \<exists>kvs. v = JObj kvs \<and> field_ok kvs ''_embedded'' wf_event_list"
  by (cases v) (simp_all add: wf_search_payload_def)

lemma wf_search_payload_error: "wf_search_payload (JObj [(''error'', JStr msg)])"
  by (simp add: wf_search_payload_def field_ok_def)

lemma wf_event_error: "wf_event (JObj [(''error'', JStr msg)])"
  by (simp add: wf_event_def field_ok_def)

subsection \<open>The pieces of the text of an event\<close>

text \<open>
The date line.
\<close>

lemma date_info_ok:
  assumes "field_ok kvs ''dates'' wf_dates"
  shows "\<exists>s. date_info rp (JObj kvs) = Inr s"
proof (cases "map_of kvs ''dates''")
  case None
  then show ?thesis by (simp add: date_info_def py_and_def)
next
  case (Some dv)
  from field_okD [OF assms Some] obtain d where d: "dv = JObj d"
    and start: "field_ok d ''start'' wf_start"
    using wf_datesE by blast
  show ?thesis
  proof (cases "map_of d ''start''")
    case None
    with Some d show ?thesis by (simp add: date_info_def py_and_def)
  next
    case start_some: (Some sv)
    from field_okD [OF start start_some] obtain st where st: "sv = JObj st"
      and ld: "field_ok st ''localDate'' is_str"
      using wf_startE by blast
    show ?thesis
    proof (cases "map_of st ''localDate''")
      case None
      with Some d start_some st show ?thesis by (simp add: date_info_def py_and_def)
    next
      case date_some: (Some lv)
      from field_okD [OF ld date_some] obtain l where "lv = JStr l" using is_strE by blast
      with Some d start_some st date_some
      show ?thesis
        by (cases "map_of st ''localTime''") (simp_all add: date_info_def py_and_def)
    qed
  qed
qed

lemma date_info_absent:
  "field_ok kvs ''dates'' wf_dates \<Longrightarrow>
   lookup_path [''dates'', ''start'', ''localDate''] (JObj kvs) = None \<Longrightarrow>
   date_info rp (JObj kvs) = Inr []"
proof -
  assume wf: "field_ok kvs ''dates'' wf_dates"
    and absent: "lookup_path [''dates'', ''start'', ''localDate''] (JObj kvs) = None"
  show ?thesis
  proof (cases "map_of kvs ''dates''")
    case None
    then show ?thesis by (simp add: date_info_def py_and_def)
  next
    case (Some dv)
    from field_okD [OF wf Some] obtain d where d: "dv = JObj d"
      and start: "field_ok d ''start'' wf_start"
      using wf_datesE by blast
    show ?thesis
    proof (cases "map_of d ''start''")
      case None
      with Some d show ?thesis by (simp add: date_info_def py_and_def)
    next
      case start_some: (Some sv)
      from field_okD [OF start start_some] obtain st where st: "sv = JObj st"
        using wf_startE by blast
      with absent Some d start_some have "map_of st ''localDate'' = None"
        by (simp split: option.splits)
      with Some d start_some st show ?thesis by (simp add: date_info_def py_and_def)
    qed
  qed
qed

text \<open>
The venue line.
\<close>

lemma venue_part_ok:
  assumes "field_ok v k wf_named"
  shows "\<exists>s. venue_part (JObj v) k = Inr (JStr s)"
proof (cases "map_of v k")
  case None
  then show ?thesis by (simp add: venue_part_def)
next
  case (Some part)
  from field_okD [OF assms Some] obtain pk where pk: "part = JObj pk" "field_ok pk ''name'' is_str"
    using wf_namedE by blast
  show ?thesis
  proof (cases "map_of pk ''name''")
    case None
    with Some pk show ?thesis by (simp add: venue_part_def)
  next
    case name: (Some n)
    from field_okD [OF pk(2) name] obtain s where "n = JStr s" using is_strE by blast
    with Some pk name show ?thesis by (simp add: venue_part_def)
  qed
qed

lemma venue_info_no_embedded:
  "map_of kvs ''embedded'' = None \<Longrightarrow> venue_info rp (JObj kvs) = Inr []"
  by (simp add: venue_info_def py_and_def)

lemma venue_info_no_inner:
  "map_of kvs ''embedded'' = Some (JObj e) \<Longrightarrow> map_of e ''_embedded'' = None \<Longrightarrow>
   venue_info rp (JObj kvs) = Inr []"
  by (simp add: venue_info_def py_and_def)

lemma venue_info_no_venues:
  "map_of kvs ''embedded'' = Some (JObj e) \<Longrightarrow> map_of e ''_embedded'' = Some (JObj e') \<Longrightarrow>
   map_of e' ''venues'' = None \<Longrightarrow> venue_info rp (JObj kvs) = Inr []"
  by (simp add: venue_info_def py_and_def)

lemma venue_info_empty:
  "map_of kvs ''embedded'' = Some (JObj e) \<Longrightarrow> map_of e ''_embedded'' = Some (JObj e') \<Longrightarrow>
   map_of e' ''venues'' = Some (JArr []) \<Longrightarrow> venue_info rp (JObj kvs) = Inr []"
  by (simp add: venue_info_def py_and_def)

lemma venue_info_first:
  assumes "map_of kvs ''embedded'' = Some (JObj e)" and "map_of e ''_embedded'' = Some (JObj e')"
      and "map_of e' ''venues'' = Some (JArr (JObj vk # rest))"
      and "venue_part (JObj vk) ''city'' = Inr (JStr c)"
      and "venue_part (JObj vk) ''state'' = Inr (JStr s)"
      and "venue_part (JObj vk) ''country'' = Inr (JStr t)"
  shows "venue_info rp (JObj kvs) =
         Inr (''Venue: ''
              @ py_str rp (case map_of vk ''name'' of None \<Rightarrow> JStr ''Unknown Venue'' | Some n \<Rightarrow> n)
              @ '', '' @ join_strs '', '' (filter (\<lambda>s. s \<noteq> []) [c, s, t]) @ ''\<newline>'')"
proof -
  have "py_join '', '' (filter py_truthy [JStr c, JStr s, JStr t])
        = Inr (join_strs '', '' (filter (\<lambda>s. s \<noteq> []) [c, s, t]))"
    using str_items_filter [of "[c, s, t]"] by (simp add: py_join_def)
  with assms show ?thesis
    by (simp add: venue_info_def py_and_def)
qed

lemma venue_info_cases:
  assumes "field_ok kvs ''embedded'' wf_embedded"
  shows "(lookup_path [''embedded'', ''_embedded'', ''venues''] (JObj kvs) = None
            \<and> venue_info rp (JObj kvs) = Inr [])
         \<or> (\<exists>vs s. lookup_path [''embedded'', ''_embedded'', ''venues''] (JObj kvs) = Some vs
            \<and> venue_info rp (JObj kvs) = Inr s)"
proof (cases "map_of kvs ''embedded''")
  case None
  then show ?thesis by (simp add: venue_info_no_embedded)
next
  case (Some ev)
  from field_okD [OF assms Some] obtain e where e: "ev = JObj e"
    and inner: "field_ok e ''_embedded'' wf_inner"
    using wf_embeddedE by blast
  show ?thesis
  proof (cases "map_of e ''_embedded''")
    case None
    with Some e show ?thesis by (simp add: venue_info_no_inner)
  next
    case inner_some: (Some iv)
    from field_okD [OF inner inner_some] obtain e' where e': "iv = JObj e'"
      and vs: "field_ok e' ''venues'' wf_venues"
      using wf_innerE by blast
    show ?thesis
    proof (cases "map_of e' ''venues''")
      case None
      with Some e inner_some e' show ?thesis by (simp add: venue_info_no_venues)
    next
      case venues_some: (Some vv)
      from field_okD [OF vs venues_some] obtain vl where vl: "vv = JArr vl" "list_all wf_venue vl"
        using wf_venuesE by blast
      have path: "lookup_path [''embedded'', ''_embedded'', ''venues''] (JObj kvs) = Some vv"
        using Some e inner_some e' venues_some by simp
      show ?thesis
      proof (cases vl)
        case Nil
        have "venue_info rp (JObj kvs) = Inr []"
          using Some e inner_some e' venues_some vl Nil venue_info_empty by simp
        with path show ?thesis by simp
      next
        case (Cons v rest)
        with vl have "wf_venue v" by simp
        then obtain vk where vk: "v = JObj vk" "field_ok vk ''city'' wf_named"
          "field_ok vk ''state'' wf_named" "field_ok vk ''country'' wf_named"
          using wf_venueE by blast
        from venue_part_ok [OF vk(2)] obtain c where c: "venue_part (JObj vk) ''city'' = Inr (JStr c)" ..
        from venue_part_ok [OF vk(3)] obtain s where s: "venue_part (JObj vk) ''state'' = Inr (JStr s)" ..
        from venue_part_ok [OF vk(4)] obtain t where t: "venue_part (JObj vk) ''country'' = Inr (JStr t)" ..
        have first: "map_of e' ''venues'' = Some (JArr (JObj vk # rest))"
          using venues_some vl Cons vk by simp
        have emb: "map_of kvs ''embedded'' = Some (JObj e)" using Some e by simp
        have inn: "map_of e ''_embedded'' = Some (JObj e')" using inner_some e' by simp
        from venue_info_first [OF emb inn first c s t, of rp]
        have "\<exists>s. venue_info rp (JObj kvs) = Inr s" by blast
        with path show ?thesis by simp
      qed
    qed
  qed
qed

lemma venue_info_ok:
  "field_ok kvs ''embedded'' wf_embedded \<Longrightarrow> \<exists>s. venue_info rp (JObj kvs) = Inr s"
  using venue_info_cases [of kvs rp] by blast

lemma venue_info_absent:
  "field_ok kvs ''embedded'' wf_embedded \<Longrightarrow>
   lookup_path [''embedded'', ''_embedded'', ''venues''] (JObj kvs) = None \<Longrightarrow>
   venue_info rp (JObj kvs) = Inr []"
  using venue_info_cases [of kvs rp] by auto

lemma venue_line_path:
  assumes "venue_info rp event = Inr s" and "s \<noteq> []"
  shows "\<exists>vs. lookup_path [''embedded'', ''_embedded'', ''venues''] event = Some vs"
proof -
  let ?cond = "py_and (py_contains ''embedded'' event)
          (py_and (bind_result (py_getitem event ''embedded'') (py_contains ''_embedded''))
                  (bind_result (py_getitem event ''embedded'') (\<lambda>e.
                   bind_result (py_getitem e ''_embedded'') (py_contains ''venues''))))"
  let ?inner = "\<lambda>e'. bind_result (py_getitem e' ''venues'') (\<lambda>venues.
         bind_result
           (py_and (Inr (py_truthy venues)) (bind_result (py_len venues) (\<lambda>n. Inr (0 < n))))
         (\<lambda>nonempty.
           if nonempty then
             bind_result (py_getitem0 venues) (\<lambda>venue.
             bind_result (py_get venue ''name'' (JStr ''Unknown Venue'')) (\<lambda>venue_name.
             bind_result (venue_part venue ''city'') (\<lambda>city.
             bind_result (venue_part venue ''state'') (\<lambda>state.
             bind_result (venue_part venue ''country'') (\<lambda>country.
             bind_result (py_join '', '' (filter py_truthy [city, state, country])) (\<lambda>location.
               Inr (''Venue: '' @ py_str rp venue_name @ '', '' @ location @ ''\<newline>'')))))))
           else Inr []))"
  let ?rest = "\<lambda>has_venues.
       if has_venues then
         bind_result (py_getitem event ''embedded'') (\<lambda>e.
         bind_result (py_getitem e ''_embedded'') ?inner)
       else Inr []"
  have whole: "venue_info rp event = bind_result ?cond ?rest"
    unfolding venue_info_def ..
  from assms whole have cond: "?cond = Inr True" and rest: "?rest True = Inr s"
    by (cases ?cond; simp split: if_splits)+
  from cond have "py_and (py_contains ''embedded'' event)
          (bind_result (py_getitem event ''embedded'') (\<lambda>e.
             py_and (py_contains ''_embedded'' e)
                    (bind_result (py_getitem e ''_embedded'') (py_contains ''venues'')))) = Inr True"
    by (simp only: py_and_bind)
  from key_step [OF this] obtain kvs e where ev: "event = JObj kvs"
    and e: "map_of kvs ''embedded'' = Some e"
    and step: "py_and (py_contains ''_embedded'' e)
                 (bind_result (py_getitem e ''_embedded'') (py_contains ''venues'')) = Inr True"
    by blast
  from key_step [OF step] obtain em e' where e_obj: "e = JObj em"
    and e': "map_of em ''_embedded'' = Some e'"
    by blast
  from rest ev e e_obj e' have "?inner e' = Inr s" by simp
  from getitem_Inr [OF this] obtain vm vs where "e' = JObj vm" "map_of vm ''venues'' = Some vs"
    by blast
  with ev e e_obj e' show ?thesis by simp
qed

text \<open>
The price, ticket status and URL lines.
\<close>

lemma price_info_cases:
  assumes "field_ok kvs ''priceRanges'' wf_price_ranges"
  shows "(lookup_path [''priceRanges''] (JObj kvs) = None \<longrightarrow> price_info rp (JObj kvs) = Inr [])
         \<and> (\<exists>s. price_info rp (JObj kvs) = Inr s)"
proof (cases "map_of kvs ''priceRanges''")
  case None
  then show ?thesis by (simp add: price_info_def)
next
  case (Some v)
  from field_okD [OF assms Some] obtain ps where ps: "v = JArr ps" "list_all is_obj ps"
    using wf_price_rangesE by blast
  show ?thesis
  proof (cases ps)
    case Nil
    with Some ps show ?thesis by (simp add: price_info_def py_and_def)
  next
    case (Cons p rest)
    with ps have "is_obj p" by simp
    then obtain pr where "p = JObj pr" using is_objE by blast
    with Some ps Cons show ?thesis by (simp add: price_info_def py_and_def)
  qed
qed

lemma ticket_info_cases:
  assumes "field_ok kvs ''dates'' wf_dates"
  shows "(lookup_path [''dates'', ''status'', ''code''] (JObj kvs) = None
            \<longrightarrow> ticket_info (JObj kvs) = Inr [])
         \<and> (\<exists>s. ticket_info (JObj kvs) = Inr s)"
proof (cases "map_of kvs ''dates''")
  case None
  then show ?thesis by (simp add: ticket_info_def py_and_def)
next
  case (Some dv)
  from field_okD [OF assms Some] obtain d where d: "dv = JObj d"
    and status: "field_ok d ''status'' is_obj"
    using wf_datesE by blast
  show ?thesis
  proof (cases "map_of d ''status''")
    case None
    with Some d show ?thesis by (simp add: ticket_info_def py_and_def)
  next
    case status_some: (Some sv)
    from field_okD [OF status status_some] obtain st where st: "sv = JObj st"
      using is_objE by blast
    show ?thesis
    proof (cases "map_of st ''code''")
      case None
      with Some d status_some st show ?thesis
        by (simp add: ticket_info_def py_and_def status_label_def)
    next
      case (Some c)
      with \<open>map_of kvs ''dates'' = Some dv\<close> d status_some st show ?thesis
        by (simp add: ticket_info_def py_and_def)
    qed
  qed
qed

lemma url_info_cases:
  "(lookup_path [''url''] (JObj kvs) = None \<longrightarrow> url_info rp (JObj kvs) = Inr [])
   \<and> (\<exists>s. url_info rp (JObj kvs) = Inr s)"
  by (cases "map_of kvs ''url''") (simp_all add: url_info_def)

text \<open>
The genre line.
\<close>

lemma genre_part_value:
  assumes "field_ok cl k wf_named"
  shows "genre_part (JObj cl) k =
         Inr (map JStr (case component_name cl k of
                          Some n \<Rightarrow> if n \<noteq> [] \<and> not_undefined n then [n] else []
                        | None \<Rightarrow> []))"
proof (cases "map_of cl k")
  case None
  then show ?thesis by (simp add: genre_part_def has_truthy_def py_and_def component_name_def)
next
  case (Some cv)
  from field_okD [OF assms Some] obtain c where c: "cv = JObj c" "field_ok c ''name'' is_str"
    using wf_namedE by blast
  show ?thesis
  proof (cases "map_of c ''name''")
    case None
    with Some c show ?thesis
      by (simp add: genre_part_def has_truthy_def py_and_def component_name_def)
  next
    case name: (Some nv)
    from field_okD [OF c(2) name] obtain n where "nv = JStr n" using is_strE by blast
    moreover from name have "c \<noteq> []" by auto
    ultimately show ?thesis using Some c name
      by (simp add: genre_part_def has_truthy_def py_and_def component_name_def not_undefined_def)
  qed
qed

lemma genre_line_join:
  "(if map JStr ns \<noteq> [] then
      bind_result (py_join '' | '' (map JStr ns)) (\<lambda>joined. Inr (''Genre: '' @ joined @ ''\<newline>''))
    else Inr []) = Inr (genre_line ns)"
  by (simp add: py_join_strs genre_line_def)

lemma genre_info_first:
  assumes "map_of kvs ''classifications'' = Some (JArr (JObj cl # rest))"
      and "wf_classification (JObj cl)"
  shows "genre_info (JObj kvs) =
         Inr (genre_line (names_where (\<lambda>n. n \<noteq> [] \<and> not_undefined n) cl))"
proof -
  from assms(2) have wf: "field_ok cl ''segment'' wf_named" "field_ok cl ''genre'' wf_named"
    "field_ok cl ''subGenre'' wf_named"
    by (simp_all add: wf_classification_def)
  let ?part = "\<lambda>k. case component_name cl k of
                       Some n \<Rightarrow> if n \<noteq> [] \<and> not_undefined n then [n] else []
                     | None \<Rightarrow> []"
  let ?names = "?part ''segment'' @ ?part ''genre'' @ ?part ''subGenre''"
  have names: "names_where (\<lambda>n. n \<noteq> [] \<and> not_undefined n) cl = ?names"
    by (simp add: names_where_def)
  have parts: "genre_part (JObj cl) ''segment'' = Inr (map JStr (?part ''segment''))"
    "genre_part (JObj cl) ''genre'' = Inr (map JStr (?part ''genre''))"
    "genre_part (JObj cl) ''subGenre'' = Inr (map JStr (?part ''subGenre''))"
    using wf by (simp_all only: genre_part_value)
  have join: "py_join '' | '' (map JStr ?names) = Inr (join_strs '' | '' ?names)"
    by (rule py_join_strs)
  have "genre_info (JObj kvs) =
        (if map JStr ?names \<noteq> [] then
           bind_result (py_join '' | '' (map JStr ?names))
             (\<lambda>joined. Inr (''Genre: '' @ joined @ ''\<newline>''))
         else Inr [])"
    using assms(1) by (simp only: genre_info_def has_truthy_def py_and_def parts Let_def
        py_contains.simps py_getitem.simps py_getitem0.simps py_truthy.simps bind_result_Inr
        option.simps list.simps json.simps map_append if_True if_False not_False_eq_True simp_thms)
  also have "\<dots> = Inr (genre_line ?names)"
    by (rule genre_line_join)
  finally show ?thesis by (simp only: names)
qed

lemma genre_info_cases:
  assumes "field_ok kvs ''classifications'' wf_classifications"
  shows "(lookup_path [''classifications''] (JObj kvs) = None \<longrightarrow> genre_info (JObj kvs) = Inr [])
         \<and> (\<exists>s. genre_info (JObj kvs) = Inr s)"
proof (cases "map_of kvs ''classifications''")
  case None
  then show ?thesis by (simp add: genre_info_def has_truthy_def py_and_def)
next
  case (Some v)
  from field_okD [OF assms Some] obtain cs where cs: "v = JArr cs" "list_all wf_classification cs"
    using wf_classificationsE by blast
  show ?thesis
  proof (cases cs)
    case Nil
    with Some cs show ?thesis by (simp add: genre_info_def has_truthy_def py_and_def)
  next
    case (Cons c rest)
    with cs have wf: "wf_classification c" by simp
    then obtain cl where cl: "c = JObj cl" using wf_classificationE by blast
    have "map_of kvs ''classifications'' = Some (JArr (JObj cl # rest))"
      using Some cs Cons cl by simp
    from genre_info_first [OF this] wf cl Some show ?thesis by simp
  qed
qed

text \<open>
A list field that is missing or empty gives no line.
\<close>

lemma price_info_none:
  assumes "missing_or_empty [''priceRanges''] (JObj kvs)"
  shows "price_info rp (JObj kvs) = Inr []"
proof (cases "map_of kvs ''priceRanges''")
  case None
  then show ?thesis by (simp add: price_info_def)
next
  case (Some v)
  with assms have "v = JArr []" by (simp add: missing_or_empty_def)
  with Some show ?thesis by (simp add: price_info_def py_and_def)
qed

lemma genre_info_none:
  assumes "missing_or_empty [''classifications''] (JObj kvs)"
  shows "genre_info (JObj kvs) = Inr []"
proof (cases "map_of kvs ''classifications''")
  case None
  then show ?thesis by (simp add: genre_info_def has_truthy_def py_and_def)
next
  case (Some v)
  with assms have "v = JArr []" by (simp add: missing_or_empty_def)
  with Some show ?thesis by (simp add: genre_info_def has_truthy_def py_and_def)
qed

lemma venue_info_none:
  assumes "field_ok kvs ''embedded'' wf_embedded"
      and "missing_or_empty [''embedded'', ''_embedded'', ''venues''] (JObj kvs)"
  shows "venue_info rp (JObj kvs) = Inr []"
proof (cases "lookup_path [''embedded'', ''_embedded'', ''venues''] (JObj kvs)")
  case None
  with assms(1) show ?thesis by (rule venue_info_absent)
next
  case (Some vs)
  with assms(2) have vs: "vs = JArr []" by (simp add: missing_or_empty_def)
  from Some obtain ev where ev: "map_of kvs ''embedded'' = Some ev"
    by (cases "map_of kvs ''embedded''") simp_all
  from field_okD [OF assms(1) ev] obtain e where e: "ev = JObj e"
    and inner: "field_ok e ''_embedded'' wf_inner"
    using wf_embeddedE by blast
  from Some ev e obtain iv where iv: "map_of e ''_embedded'' = Some iv"
    by (cases "map_of e ''_embedded''") simp_all
  from field_okD [OF inner iv] obtain e' where e': "iv = JObj e'"
    using wf_innerE by blast
  from Some ev e iv e' vs have "map_of e' ''venues'' = Some (JArr [])"
    by (cases "map_of e' ''venues''") simp_all
  with ev e iv e' show ?thesis by (simp add: venue_info_empty)
qed

lemma genre_info_wf:
  assumes "field_ok kvs ''classifications'' wf_classifications"
  shows "genre_info (JObj kvs)
         = Inr (genre_line (names_where (\<lambda>n. n \<noteq> [] \<and> not_undefined n)
                  (first_classification (JObj kvs))))"
proof (cases "map_of kvs ''classifications''")
  case None
  then show ?thesis
    by (simp add: genre_info_def has_truthy_def py_and_def first_classification_def
          names_where_def component_name_def genre_line_def)
next
  case (Some v)
  from field_okD [OF assms Some] obtain cs where cs: "v = JArr cs" "list_all wf_classification cs"
    using wf_classificationsE by blast
  show ?thesis
  proof (cases cs)
    case Nil
    with Some cs show ?thesis
      by (simp add: genre_info_def has_truthy_def py_and_def first_classification_def
            names_where_def component_name_def genre_line_def)
  next
    case (Cons c rest)
    with cs have wf: "wf_classification c" by simp
    then obtain cl where cl: "c = JObj cl" using wf_classificationE by blast
    have first: "map_of kvs ''classifications'' = Some (JArr (JObj cl # rest))"
      using Some cs Cons cl by simp
    then have "first_classification (JObj kvs) = cl"
      by (simp add: first_classification_def)
    with genre_info_first [OF first] wf cl show ?thesis by simp
  qed
qed

text \<open>
The whole text.
\<close>

lemma format_event_pieces:
  assumes "py_get event ''name'' (JStr ''Unknown Event'') = Inr name"
      and "date_info rp event = Inr date" and "venue_info rp event = Inr venue"
      and "price_info rp event = Inr price" and "ticket_info event = Inr ticket"
      and "url_info rp event = Inr url" and "genre_info event = Inr genre"
  shows "format_event rp event = Inr (event_text (py_str rp name) date venue genre price ticket url)"
  using assms by (simp add: format_event_def)

lemma format_event_ok:
  assumes "wf_event event"
  shows "\<exists>s. format_event rp event = Inr s"
proof -
  from assms obtain kvs where ev: "event = JObj kvs"
    and wf: "field_ok kvs ''dates'' wf_dates" "field_ok kvs ''embedded'' wf_embedded"
      "field_ok kvs ''priceRanges'' wf_price_ranges"
      "field_ok kvs ''classifications'' wf_classifications"
    using wf_eventE by blast
  obtain name where name: "py_get event ''name'' (JStr ''Unknown Event'') = Inr name"
    using ev by simp
  obtain date where date: "date_info rp event = Inr date"
    using date_info_ok [OF wf(1)] ev by blast
  obtain venue where venue: "venue_info rp event = Inr venue"
    using venue_info_ok [OF wf(2)] ev by blast
  obtain price where price: "price_info rp event = Inr price"
    using price_info_cases [OF wf(3)] ev by blast
  obtain ticket where ticket: "ticket_info event = Inr ticket"
    using ticket_info_cases [OF wf(1)] ev by blast
  obtain url where url: "url_info rp event = Inr url"
    using url_info_cases ev by blast
  obtain genre where genre: "genre_info event = Inr genre"
    using genre_info_cases [OF wf(4)] ev by blast
  from format_event_pieces [OF name date venue price ticket url genre] show ?thesis ..
qed

lemma format_events_ok: "list_all wf_event es \<Longrightarrow> \<exists>ss. format_events rp es = Inr ss"
proof (induction es)
  case Nil
  show ?case by simp
next
  case (Cons e es)
  then obtain s ss where "format_event rp e = Inr s" "format_events rp es = Inr ss"
    using format_event_ok [of e rp] by auto
  then show ?case by simp
qed

subsection \<open>The gateway and the tools\<close>

lemma extract_events_ok:
  assumes "wf_search_payload body"
  shows "\<exists>es. extract_events body = Inr (JArr es) \<and> list_all wf_event es"
proof -
  from assms obtain kvs where b: "body = JObj kvs" and em: "field_ok kvs ''_embedded'' wf_event_list"
    using wf_search_payloadE by blast
  show ?thesis
  proof (cases "map_of kvs ''_embedded''")
    case None
    with b show ?thesis by (simp add: extract_events_def)
  next
    case (Some ev)
    from field_okD [OF em Some] obtain e where e: "ev = JObj e" "field_ok e ''events'' wf_events"
      using wf_event_listE by blast
    show ?thesis
    proof (cases "map_of e ''events''")
      case None
      with b Some e show ?thesis by (simp add: extract_events_def)
    next
      case events: (Some evs)
      from field_okD [OF e(2) events] obtain es where "evs = JArr es" "list_all wf_event es"
        using wf_eventsE by blast
      with b Some e events show ?thesis by (simp add: extract_events_def)
    qed
  qed
qed

lemma render_events_error:
  "map_of kvs ''error'' = Some msg \<Longrightarrow>
   render_events rp (JObj kvs) none_found header = Inr (''Error: '' @ py_str rp msg)"
  by (simp add: render_events_def)

lemma render_events_ok:
  assumes "wf_search_payload body"
  shows "\<exists>s. render_events rp body none_found header = Inr s"
proof -
  from assms obtain kvs where b: "body = JObj kvs"
    using wf_search_payloadE by blast
  show ?thesis
  proof (cases "map_of kvs ''error''")
    case (Some msg)
    with b show ?thesis by (simp add: render_events_error)
  next
    case None
    from extract_events_ok [OF assms] obtain es
      where es: "extract_events body = Inr (JArr es)" "list_all wf_event es" by blast
    from format_events_ok [OF es(2), of rp] obtain ss where "format_events rp es = Inr ss" ..
    with None b es(1) show ?thesis by (simp add: render_events_def)
  qed
qed

text \<open>
What the gateway hands to the tool: the body, or an object with the key \<open>error\<close>.
\<close>

lemma gateway_data:
  "(\<exists>body. client_get env (call_url (make_ticketmaster_request env endpoint ps))
              (call_params (make_ticketmaster_request env endpoint ps)) = Response body
          \<and> call_data (make_ticketmaster_request env endpoint ps) = body)
   \<or> (\<exists>msg. call_data (make_ticketmaster_request env endpoint ps) = JObj [(''error'', JStr msg)]
          \<and> (\<forall>body. client_get env (call_url (make_ticketmaster_request env endpoint ps))
              (call_params (make_ticketmaster_request env endpoint ps)) \<noteq> Response body))"
  by (cases "client_get env (TICKETMASTER_API_BASE @ ''/'' @ endpoint)
               (ps(''apikey'' \<mapsto> JStr (api_key env)))")
     (simp_all add: make_ticketmaster_request_def Let_def)

lemma gateway_data_shape:
  assumes "body_ok shape (client_get env (call_url (make_ticketmaster_request env endpoint ps))
              (call_params (make_ticketmaster_request env endpoint ps)))"
      and "\<And>msg. shape (JObj [(''error'', JStr msg)])"
  shows "shape (call_data (make_ticketmaster_request env endpoint ps))"
  using gateway_data [of env endpoint ps] assms by (auto simp: body_ok_def)

lemma gateway_rate_limited:
  assumes "client_get env (call_url (make_ticketmaster_request env endpoint ps))
             (call_params (make_ticketmaster_request env endpoint ps)) = HTTPStatusError 429"
  shows "call_data (make_ticketmaster_request env endpoint ps)
         = JObj [(''error'', JStr ''Rate limit exceeded. Please try again later.'')]"
  using assms by (simp add: make_ticketmaster_request_def Let_def)

lemma render_rate_limited:
  "render_events rp (JObj [(''error'', JStr ''Rate limit exceeded. Please try again later.'')])
     none_found header
   = Inr ''Error: Rate limit exceeded. Please try again later.''"
  by (simp add: render_events_def)

lemma availability_status_ok:
  assumes "field_ok kvs ''dates'' wf_dates"
  shows "\<exists>s. availability_status (JObj kvs) = Inr s"
proof (cases "map_of kvs ''dates''")
  case None
  then show ?thesis by (simp add: availability_status_def py_and_def)
next
  case (Some dv)
  from field_okD [OF assms Some] obtain d where d: "dv = JObj d"
    and status: "field_ok d ''status'' is_obj"
    using wf_datesE by blast
  show ?thesis
  proof (cases "map_of d ''status''")
    case None
    with Some d show ?thesis by (simp add: availability_status_def py_and_def)
  next
    case status_some: (Some sv)
    from field_okD [OF status status_some] obtain st where st: "sv = JObj st"
      using is_objE by blast
    with Some d status_some show ?thesis by (simp add: availability_status_def py_and_def)
  qed
qed

lemma availability_price_ok:
  assumes "field_ok kvs ''priceRanges'' wf_price_ranges"
  shows "\<exists>s. availability_price rp (JObj kvs) = Inr s"
proof (cases "map_of kvs ''priceRanges''")
  case None
  then show ?thesis by (simp add: availability_price_def)
next
  case (Some v)
  from field_okD [OF assms Some] obtain ps where ps: "v = JArr ps" "list_all is_obj ps"
    using wf_price_rangesE by blast
  show ?thesis
  proof (cases ps)
    case Nil
    with Some ps show ?thesis by (simp add: availability_price_def py_and_def)
  next
    case (Cons p rest)
    with ps have "is_obj p" by simp
    then obtain pr where "p = JObj pr" using is_objE by blast
    with Some ps Cons show ?thesis by (simp add: availability_price_def py_and_def)
  qed
qed

lemma details_ok:
  assumes "wf_event body"
  shows "\<exists>s. bind_result (py_contains ''error'' body) (\<lambda>failed.
              if failed then
                bind_result (py_getitem body ''error'') (\<lambda>msg. Inr (''Error: '' @ py_str rp msg))
              else format_event rp body) = Inr s"
proof -
  from assms obtain kvs where b: "body = JObj kvs" using wf_eventE by blast
  from format_event_ok [OF assms, of rp] obtain s where "format_event rp body = Inr s" ..
  with b show ?thesis by (cases "map_of kvs ''error''") simp_all
qed

lemma availability_ok:
  assumes "wf_event body"
  shows "\<exists>s. bind_result (py_contains ''error'' body) (\<lambda>failed.
              if failed then
                bind_result (py_getitem body ''error'') (\<lambda>msg. Inr (''Error: '' @ py_str rp msg))
              else
                bind_result (availability_status body) (\<lambda>ticket_status.
                bind_result (availability_price rp body) (\<lambda>price.
                bind_result (py_get body ''url'' (JStr ''No ticket link available''))
                  (\<lambda>ticket_link.
                bind_result (py_get body ''name'' (JStr ''Unknown Event''))
                  (\<lambda>event_name.
                  Inr (''\<newline>Ticket Availability for: '' @ py_str rp event_name
                       @ ''\<newline>Status: '' @ ticket_status
                       @ ''\<newline>'' @ price
                       @ ''\<newline>Ticket Link: '' @ py_str rp ticket_link
                       @ ''\<newline>'')))))) = Inr s"
proof -
  from assms obtain kvs where b: "body = JObj kvs"
    and wf: "field_ok kvs ''dates'' wf_dates" "field_ok kvs ''priceRanges'' wf_price_ranges"
    using wf_eventE by blast
  from availability_status_ok [OF wf(1)] obtain st where "availability_status (JObj kvs) = Inr st" ..
  moreover from availability_price_ok [OF wf(2), of rp]
  obtain pr where "availability_price rp (JObj kvs) = Inr pr" ..
  ultimately show ?thesis using b by (cases "map_of kvs ''error''") simp_all
qed

subsection \<open>The claims\<close>

text \<open>
  C1. For an event record of the shape \<open>wf_event\<close>, \<open>format_event\<close> returns a text (no
  exception), which is the header followed by the six pieces in the fixed order; and for
  each optional field that the record does not have, the piece of that field is empty, so
  the text has no line for it: the date when there is no \<open>localDate\<close>; the venue, the genre
  and the price range when the list (\<open>venues\<close>, \<open>classifications\<close>, \<open>priceRanges\<close>) is
  missing or empty; the ticket status when there is no status \<open>code\<close>; the URL when there is
  no \<open>url\<close>.
\<close>

theorem format_event_optional_fields:
  assumes "wf_event event"
  shows "\<exists>name date venue genre price ticket url.
           format_event rp event = Inr (event_text name date venue genre price ticket url)
           \<and> date_info rp event = Inr date \<and> venue_info rp event = Inr venue
           \<and> genre_info event = Inr genre \<and> price_info rp event = Inr price
           \<and> ticket_info event = Inr ticket \<and> url_info rp event = Inr url
           \<and> (lookup_path [''dates'', ''start'', ''localDate''] event = None \<longrightarrow> date = [])
           \<and> (missing_or_empty [''embedded'', ''_embedded'', ''venues''] event \<longrightarrow> venue = [])
           \<and> (missing_or_empty [''classifications''] event \<longrightarrow> genre = [])
           \<and> (missing_or_empty [''priceRanges''] event \<longrightarrow> price = [])
           \<and> (lookup_path [''dates'', ''status'', ''code''] event = None \<longrightarrow> ticket = [])
           \<and> (lookup_path [''url''] event = None \<longrightarrow> url = [])"
proof -
  from assms obtain kvs where ev: "event = JObj kvs"
    and wf: "field_ok kvs ''dates'' wf_dates" "field_ok kvs ''embedded'' wf_embedded"
      "field_ok kvs ''priceRanges'' wf_price_ranges"
      "field_ok kvs ''classifications'' wf_classifications"
    using wf_eventE by blast
  obtain name where name: "py_get event ''name'' (JStr ''Unknown Event'') = Inr name"
    using ev by simp
  obtain date where date: "date_info rp event = Inr date"
    using date_info_ok [OF wf(1)] ev by blast
  obtain venue where venue: "venue_info rp event = Inr venue"
    using venue_info_ok [OF wf(2)] ev by blast
  obtain price where price: "price_info rp event = Inr price"
    using price_info_cases [OF wf(3)] ev by blast
  obtain ticket where ticket: "ticket_info event = Inr ticket"
    using ticket_info_cases [OF wf(1)] ev by blast
  obtain url where url: "url_info rp event = Inr url"
    using url_info_cases ev by blast
  obtain genre where genre: "genre_info event = Inr genre"
    using genre_info_cases [OF wf(4)] ev by blast
  have absent:
    "lookup_path [''dates'', ''start'', ''localDate''] event = None \<longrightarrow> date = []"
    "missing_or_empty [''embedded'', ''_embedded'', ''venues''] event \<longrightarrow> venue = []"
    "missing_or_empty [''classifications''] event \<longrightarrow> genre = []"
    "missing_or_empty [''priceRanges''] event \<longrightarrow> price = []"
    "lookup_path [''dates'', ''status'', ''code''] event = None \<longrightarrow> ticket = []"
    "lookup_path [''url''] event = None \<longrightarrow> url = []"
    using date_info_absent [OF wf(1), of rp] date venue_info_none [OF wf(2), of rp] venue
      genre_info_none [of kvs] genre price_info_none [of kvs rp] price
      ticket_info_cases [OF wf(1)] ticket url_info_cases [of kvs rp] url ev
    by auto
  note whole = format_event_pieces [OF name date venue price ticket url genre]
  show ?thesis
    by (rule exI [of _ "py_str rp name"], rule exI [of _ date], rule exI [of _ venue],
        rule exI [of _ genre], rule exI [of _ price], rule exI [of _ ticket],
        rule exI [of _ url])
       (use whole date venue genre price ticket url absent in blast)
qed

theorem format_event_optional_fields_witness:
  "wf_event (JObj [(''name'', JStr ''Show''), (''url'', JStr ''https://tm.example/e1'')])
   \<and> (\<exists>s. format_event (\<lambda>v. [])
           (JObj [(''name'', JStr ''Show''), (''url'', JStr ''https://tm.example/e1'')]) = Inr s)
   \<and> date_info (\<lambda>v. [])
         (JObj [(''name'', JStr ''Show''), (''url'', JStr ''https://tm.example/e1'')]) = Inr []
   \<and> venue_info (\<lambda>v. [])
         (JObj [(''name'', JStr ''Show''), (''url'', JStr ''https://tm.example/e1'')]) = Inr []
   \<and> genre_info
         (JObj [(''name'', JStr ''Show''), (''url'', JStr ''https://tm.example/e1'')]) = Inr []
   \<and> price_info (\<lambda>v. [])
         (JObj [(''name'', JStr ''Show''), (''url'', JStr ''https://tm.example/e1'')]) = Inr []
   \<and> ticket_info
         (JObj [(''name'', JStr ''Show''), (''url'', JStr ''https://tm.example/e1'')]) = Inr []
   \<and> wf_event (JObj [(''name'', JStr ''Show''), (''priceRanges'', JArr []),
         (''classifications'', JArr []),
         (''embedded'', JObj [(''_embedded'', JObj [(''venues'', JArr [])])])])
   \<and> venue_info (\<lambda>v. []) (JObj [(''name'', JStr ''Show''), (''priceRanges'', JArr []),
         (''classifications'', JArr []),
         (''embedded'', JObj [(''_embedded'', JObj [(''venues'', JArr [])])])]) = Inr []
   \<and> genre_info (JObj [(''name'', JStr ''Show''), (''priceRanges'', JArr []),
         (''classifications'', JArr []),
         (''embedded'', JObj [(''_embedded'', JObj [(''venues'', JArr [])])])]) = Inr []
   \<and> price_info (\<lambda>v. []) (JObj [(''name'', JStr ''Show''), (''priceRanges'', JArr []),
         (''classifications'', JArr []),
         (''embedded'', JObj [(''_embedded'', JObj [(''venues'', JArr [])])])]) = Inr []"
proof -
  let ?ev = "JObj [(''name'', JStr ''Show''), (''url'', JStr ''https://tm.example/e1'')]"
  let ?ev' = "JObj [(''name'', JStr ''Show''), (''priceRanges'', JArr []),
         (''classifications'', JArr []),
         (''embedded'', JObj [(''_embedded'', JObj [(''venues'', JArr [])])])]"
  have wf: "wf_event ?ev" by (simp add: wf_event_def field_ok_def)
  have wf': "wf_event ?ev'"
    by (simp add: wf_event_def field_ok_def wf_price_ranges_def wf_classifications_def
          wf_embedded_def wf_inner_def wf_venues_def)
  from format_event_optional_fields [OF wf, of "\<lambda>v. []"]
  obtain name date venue genre price ticket url
    where "format_event (\<lambda>v. []) ?ev = Inr (event_text name date venue genre price ticket url)"
      and "date_info (\<lambda>v. []) ?ev = Inr date" and "venue_info (\<lambda>v. []) ?ev = Inr venue"
      and "genre_info ?ev = Inr genre" and "price_info (\<lambda>v. []) ?ev = Inr price"
      and "ticket_info ?ev = Inr ticket"
      and "date = []" "venue = []" "genre = []" "price = []" "ticket = []"
    by (auto simp: missing_or_empty_def)
  moreover from format_event_optional_fields [OF wf', of "\<lambda>v. []"]
  obtain venue' genre' price'
    where "venue_info (\<lambda>v. []) ?ev' = Inr venue'"
      and "genre_info ?ev' = Inr genre'" and "price_info (\<lambda>v. []) ?ev' = Inr price'"
      and "venue' = []" "genre' = []" "price' = []"
    by (auto simp: missing_or_empty_def)
  ultimately show ?thesis using wf wf' by simp
qed

text \<open>
  C2. A payload object with no key \<open>_embedded\<close>, or whose \<open>_embedded\<close> is an object with
  no key \<open>events\<close>, makes \<open>extract_events\<close> return the empty list; no exception is raised.
\<close>

theorem extract_events_no_path:
  assumes "map_of kvs ''_embedded'' = None \<or>
           (\<exists>em. map_of kvs ''_embedded'' = Some (JObj em) \<and> map_of em ''events'' = None)"
  shows "extract_events (JObj kvs) = Inr (JArr [])"
  using assms by (auto simp: extract_events_def)

theorem extract_events_no_path_witness:
  "extract_events (JObj [(''page'', JObj [(''size'', JInt 0)])]) = Inr (JArr [])
   \<and> extract_events (JObj [(''_embedded'', JObj [(''venues'', JArr [])])]) = Inr (JArr [])"
  using extract_events_no_path [of "[(''page'', JObj [(''size'', JInt 0)])]"]
        extract_events_no_path [of "[(''_embedded'', JObj [(''venues'', JArr [])])]"]
  by simp

text \<open>
  The price line where the prices are numbers other than zero (any value that Python takes
  for true). For an event whose first price range is an object: with \<open>min\<close> and \<open>max\<close> the
  line reads \<open>Price Range: <min>-<max> <currency>\<close>; with \<open>min\<close> and no \<open>max\<close> it reads
  \<open>Starting Price: <min> <currency>\<close>; the currency is \<open>USD\<close> when the key is missing; and
  an event whose \<open>priceRanges\<close> is missing or empty has no price line.
\<close>

theorem price_line:
  "(missing_or_empty [''priceRanges''] (JObj kvs) \<longrightarrow> price_info rp (JObj kvs) = Inr [])
   \<and> (map_of kvs ''priceRanges'' = Some (JArr (JObj pr # rest)) \<longrightarrow>
        (map_of pr ''min'' = Some mn \<and> py_truthy mn \<and> map_of pr ''max'' = Some mx \<and> py_truthy mx \<longrightarrow>
           price_info rp (JObj kvs)
           = Inr (''Price Range: '' @ py_str rp mn @ ''-'' @ py_str rp mx @ '' ''
                  @ py_str rp (currency_of pr) @ ''\<newline>''))
        \<and> (map_of pr ''min'' = Some mn \<and> py_truthy mn \<and> map_of pr ''max'' = None \<longrightarrow>
           price_info rp (JObj kvs)
           = Inr (''Starting Price: '' @ py_str rp mn @ '' '' @ py_str rp (currency_of pr)
                  @ ''\<newline>'')))"
  using price_info_none [of kvs rp]
  by (auto simp: price_info_def py_and_def currency_of_def split: option.splits)

theorem price_line_witness:
  "price_info (\<lambda>v. []) (JObj [(''name'', JStr ''Show''),
                       (''priceRanges'', JArr [JObj [(''min'', JInt 20), (''max'', JInt 50)]])])
   = Inr ''Price Range: 20-50 USD\<newline>''
   \<and> price_info (\<lambda>v. []) (JObj [(''priceRanges'', JArr [JObj [(''min'', JInt 20)]])])
   = Inr ''Starting Price: 20 USD\<newline>''
   \<and> price_info (\<lambda>v. []) (JObj [(''name'', JStr ''Show'')]) = Inr []
   \<and> price_info (\<lambda>v. []) (JObj [(''priceRanges'', JArr [])]) = Inr []"
  using price_line [of "[(''name'', JStr ''Show''),
                       (''priceRanges'', JArr [JObj [(''min'', JInt 20), (''max'', JInt 50)]])]"
                      "\<lambda>v. []" "[(''min'', JInt 20), (''max'', JInt 50)]" "[]" "JInt 20" "JInt 50"]
        price_line [of "[(''priceRanges'', JArr [JObj [(''min'', JInt 20)]])]"
                      "\<lambda>v. []" "[(''min'', JInt 20)]" "[]" "JInt 20" "JNull"]
        price_line [of "[(''name'', JStr ''Show'')]" "\<lambda>v. []" "[]" "[]" "JNull" "JNull"]
        price_line [of "[(''priceRanges'', JArr [])]" "\<lambda>v. []" "[]" "[]" "JNull" "JNull"]
  by (simp add: currency_of_def missing_or_empty_def str_of_int_def digit_char_def)

text \<open>
  C3. The source reads \<open>min\<close> and \<open>max\<close> with \<open>.get\<close> and takes their truth value for
  their presence, which misses the price zero: for a record with \<open>min = 0\<close> and \<open>max = 50\<close>
  the text of the event has no price line, where C3 gives \<open>Price Range: 0-50 USD\<close>, and
  \<open>check_ticket_availability\<close> answers \<open>Price information not available\<close>.
\<close>

theorem price_line_zero_min:
  "price_info (\<lambda>v. []) (JObj [(''name'', JStr ''Free Show''),
                       (''priceRanges'', JArr [JObj [(''min'', JInt 0), (''max'', JInt 50)]])])
   = Inr []
   \<and> price_info (\<lambda>v. []) (JObj [(''name'', JStr ''Free Show''),
                       (''priceRanges'', JArr [JObj [(''min'', JInt 0), (''max'', JInt 50)]])])
   \<noteq> Inr ''Price Range: 0-50 USD\<newline>''
   \<and> format_event (\<lambda>v. []) (JObj [(''name'', JStr ''Free Show''),
                       (''priceRanges'', JArr [JObj [(''min'', JInt 0), (''max'', JInt 50)]])])
   = Inr ''\<newline>Event: Free Show\<newline>\<newline>''
   \<and> returned (check_ticket_availability
        (fixed_env (Response (JObj [(''name'', JStr ''Free Show''),
                       (''priceRanges'', JArr [JObj [(''min'', JInt 0), (''max'', JInt 50)]])])))
        ''G5vYZ9'')
   = Inr (''\<newline>Ticket Availability for: Free Show\<newline>Status: Unknown''
          @ ''\<newline>Price information not available''
          @ ''\<newline>Ticket Link: No ticket link available\<newline>'')"
  by (simp add: format_event_def event_text_def date_info_def venue_info_def price_info_def
        ticket_info_def url_info_def genre_info_def has_truthy_def py_and_def
        check_ticket_availability_def run_of_def make_ticketmaster_request_def fixed_env_def
        Let_def availability_status_def availability_price_def)

text \<open>
  C4, as the code has it. For every event record of the shape \<open>wf_event\<close>, the genre line
  is the pipe-joined list of the names of the segment, genre and subgenre of the first
  classification, in that order, where a name is taken exactly when the component is there
  with a name that is not empty and not \<open>undefined\<close> in any capitalisation; with no such
  name, and for an event whose \<open>classifications\<close> is missing or empty, there is no genre
  line. The same holds of any event object whose first classification has the shape
  \<open>wf_classification\<close>, whatever its other fields are.
\<close>

theorem genre_line_of_event:
  "(missing_or_empty [''classifications''] (JObj kvs) \<longrightarrow> genre_info (JObj kvs) = Inr [])
   \<and> (map_of kvs ''classifications'' = Some (JArr (JObj cl # rest)) \<and> wf_classification (JObj cl) \<longrightarrow>
        genre_info (JObj kvs)
        = Inr (genre_line (names_where (\<lambda>n. n \<noteq> [] \<and> not_undefined n) cl)))
   \<and> (wf_event event \<longrightarrow>
        genre_info event
        = Inr (genre_line (names_where (\<lambda>n. n \<noteq> [] \<and> not_undefined n)
                 (first_classification event))))"
proof (intro conjI impI)
  assume "missing_or_empty [''classifications''] (JObj kvs)"
  then show "genre_info (JObj kvs) = Inr []" by (rule genre_info_none)
next
  assume "map_of kvs ''classifications'' = Some (JArr (JObj cl # rest)) \<and> wf_classification (JObj cl)"
  then show "genre_info (JObj kvs)
        = Inr (genre_line (names_where (\<lambda>n. n \<noteq> [] \<and> not_undefined n) cl))"
    using genre_info_first by blast
next
  assume "wf_event event"
  then obtain ev where "event = JObj ev" "field_ok ev ''classifications'' wf_classifications"
    using wf_eventE by blast
  then show "genre_info event
        = Inr (genre_line (names_where (\<lambda>n. n \<noteq> [] \<and> not_undefined n)
                 (first_classification event)))"
    using genre_info_wf by blast
qed

theorem genre_line_of_event_witness:
  "genre_info (JObj [(''classifications'',
       JArr [JObj [(''segment'', JObj [(''name'', JStr ''Music'')]),
                   (''genre'', JObj [(''name'', JStr ''Rock'')]),
                   (''subGenre'', JObj [(''name'', JStr ''UNDEFINED'')])]])])
   = Inr ''Genre: Music | Rock\<newline>''
   \<and> genre_info (JObj [(''name'', JStr ''Show'')]) = Inr []
   \<and> genre_info (JObj [(''name'', JStr ''Show''), (''classifications'', JArr [])]) = Inr []
   \<and> genre_info (JObj [(''name'', JStr ''Show''), (''classifications'',
       JArr [JObj [(''segment'', JObj [(''name'', JStr ''Sports'')]),
                   (''genre'', JObj [(''name'', JStr ''Undefined'')])]])])
   = Inr ''Genre: Sports\<newline>''"
  using genre_line_of_event [of "[(''classifications'',
       JArr [JObj [(''segment'', JObj [(''name'', JStr ''Music'')]),
                   (''genre'', JObj [(''name'', JStr ''Rock'')]),
                   (''subGenre'', JObj [(''name'', JStr ''UNDEFINED'')])]])]"
       "[(''segment'', JObj [(''name'', JStr ''Music'')]),
                   (''genre'', JObj [(''name'', JStr ''Rock'')]),
                   (''subGenre'', JObj [(''name'', JStr ''UNDEFINED'')])]" "[]" "JNull"]
    genre_line_of_event [of "[(''name'', JStr ''Show'')]" "[]" "[]" "JNull"]
    genre_line_of_event [of "[(''name'', JStr ''Show''), (''classifications'', JArr [])]"
       "[]" "[]"
       "JObj [(''name'', JStr ''Show''), (''classifications'',
       JArr [JObj [(''segment'', JObj [(''name'', JStr ''Sports'')]),
                   (''genre'', JObj [(''name'', JStr ''Undefined'')])]])]"]
  by (simp add: wf_classification_def wf_named_def field_ok_def is_str_def genre_line_def
        names_where_def component_name_def not_undefined_def lower_char_def
        missing_or_empty_def wf_event_def wf_classifications_def first_classification_def)

text \<open>
  C4 as stated fails for a component with an empty name: the segment is present and its
  name is not \<open>undefined\<close>, so the claim gives \<open>Genre:  | Rock\<close>, while the code leaves the
  segment out.
\<close>

theorem genre_line_counterexample:
  "genre_info (JObj [(''classifications'',
       JArr [JObj [(''segment'', JObj [(''name'', JStr [])]),
                   (''genre'', JObj [(''name'', JStr ''Rock'')])]])])
   = Inr ''Genre: Rock\<newline>''
   \<and> genre_info (JObj [(''classifications'',
       JArr [JObj [(''segment'', JObj [(''name'', JStr [])]),
                   (''genre'', JObj [(''name'', JStr ''Rock'')])]])])
   \<noteq> Inr (genre_line (names_where not_undefined
         [(''segment'', JObj [(''name'', JStr [])]), (''genre'', JObj [(''name'', JStr ''Rock'')])]))
   \<and> genre_line (names_where not_undefined
         [(''segment'', JObj [(''name'', JStr [])]), (''genre'', JObj [(''name'', JStr ''Rock'')])])
   = ''Genre:  | Rock\<newline>''"
  by (simp add: genre_info_def genre_part_def has_truthy_def py_and_def py_join_def
        genre_line_def names_where_def component_name_def not_undefined_def lower_char_def)

text \<open>
  C5. When the request of a tool is answered with status 429, each of the six tools
  returns the text \<open>Error: Rate limit exceeded. Please try again later.\<close>, and the gateway
  returns the object whose \<open>error\<close> is the rate limit message.
\<close>

theorem rate_limit_is_reported:
  "(answered env (search_events_by_artist env artist n) = HTTPStatusError 429 \<longrightarrow>
      returned (search_events_by_artist env artist n)
      = Inr ''Error: Rate limit exceeded. Please try again later.'')
   \<and> (answered env (search_events_by_venue env venue n) = HTTPStatusError 429 \<longrightarrow>
      returned (search_events_by_venue env venue n)
      = Inr ''Error: Rate limit exceeded. Please try again later.'')
   \<and> (answered env (search_events_by_location env city state country n) = HTTPStatusError 429 \<longrightarrow>
      returned (search_events_by_location env city state country n)
      = Inr ''Error: Rate limit exceeded. Please try again later.'')
   \<and> (answered env (search_events_by_genre env genre city' n) = HTTPStatusError 429 \<longrightarrow>
      returned (search_events_by_genre env genre city' n)
      = Inr ''Error: Rate limit exceeded. Please try again later.'')
   \<and> (answered env (get_event_details env event_id) = HTTPStatusError 429 \<longrightarrow>
      returned (get_event_details env event_id)
      = Inr ''Error: Rate limit exceeded. Please try again later.'')
   \<and> (answered env (check_ticket_availability env event_id) = HTTPStatusError 429 \<longrightarrow>
      returned (check_ticket_availability env event_id)
      = Inr ''Error: Rate limit exceeded. Please try again later.'')
   \<and> (client_get env (call_url (make_ticketmaster_request env endpoint ps))
         (call_params (make_ticketmaster_request env endpoint ps)) = HTTPStatusError 429 \<longrightarrow>
      call_data (make_ticketmaster_request env endpoint ps)
      = JObj [(''error'', JStr ''Rate limit exceeded. Please try again later.'')])"
proof (intro conjI impI)
  assume "answered env (search_events_by_artist env artist n) = HTTPStatusError 429"
  then show "returned (search_events_by_artist env artist n)
      = Inr ''Error: Rate limit exceeded. Please try again later.''"
    unfolding search_events_by_artist_def answered_def run_of_def Let_def tool_run.simps
    by (simp only: gateway_rate_limited render_rate_limited)
next
  assume "answered env (search_events_by_venue env venue n) = HTTPStatusError 429"
  then show "returned (search_events_by_venue env venue n)
      = Inr ''Error: Rate limit exceeded. Please try again later.''"
    unfolding search_events_by_venue_def answered_def run_of_def Let_def tool_run.simps
    by (simp only: gateway_rate_limited render_rate_limited)
next
  assume "answered env (search_events_by_location env city state country n) = HTTPStatusError 429"
  then show "returned (search_events_by_location env city state country n)
      = Inr ''Error: Rate limit exceeded. Please try again later.''"
    unfolding search_events_by_location_def answered_def run_of_def Let_def tool_run.simps
    by (simp only: gateway_rate_limited render_rate_limited)
next
  assume "answered env (search_events_by_genre env genre city' n) = HTTPStatusError 429"
  then show "returned (search_events_by_genre env genre city' n)
      = Inr ''Error: Rate limit exceeded. Please try again later.''"
    unfolding search_events_by_genre_def answered_def run_of_def Let_def tool_run.simps
    by (simp only: gateway_rate_limited render_rate_limited)
next
  assume "answered env (get_event_details env event_id) = HTTPStatusError 429"
  then have "call_data (make_ticketmaster_request env (''events/'' @ event_id @ ''.json'') Map.empty)
             = JObj [(''error'', JStr ''Rate limit exceeded. Please try again later.'')]"
    unfolding get_event_details_def answered_def run_of_def Let_def tool_run.simps
    by (rule gateway_rate_limited)
  then show "returned (get_event_details env event_id)
      = Inr ''Error: Rate limit exceeded. Please try again later.''"
    by (simp add: get_event_details_def run_of_def Let_def)
next
  assume "answered env (check_ticket_availability env event_id) = HTTPStatusError 429"
  then have "call_data (make_ticketmaster_request env (''events/'' @ event_id @ ''.json'') Map.empty)
             = JObj [(''error'', JStr ''Rate limit exceeded. Please try again later.'')]"
    unfolding check_ticket_availability_def answered_def run_of_def Let_def tool_run.simps
    by (rule gateway_rate_limited)
  then show "returned (check_ticket_availability env event_id)
      = Inr ''Error: Rate limit exceeded. Please try again later.''"
    by (simp add: check_ticket_availability_def run_of_def Let_def)
next
  assume "client_get env (call_url (make_ticketmaster_request env endpoint ps))
         (call_params (make_ticketmaster_request env endpoint ps)) = HTTPStatusError 429"
  then show "call_data (make_ticketmaster_request env endpoint ps)
      = JObj [(''error'', JStr ''Rate limit exceeded. Please try again later.'')]"
    by (rule gateway_rate_limited)
qed

theorem rate_limit_is_reported_witness:
  "returned (search_events_by_artist (fixed_env (HTTPStatusError 429)) ''Radiohead'' 5)
     = Inr ''Error: Rate limit exceeded. Please try again later.''
   \<and> returned (search_events_by_venue (fixed_env (HTTPStatusError 429)) ''KovZ917M'' 5)
     = Inr ''Error: Rate limit exceeded. Please try again later.''
   \<and> returned (search_events_by_location (fixed_env (HTTPStatusError 429)) ''Austin'' (Some ''TX'') ''US'' 5)
     = Inr ''Error: Rate limit exceeded. Please try again later.''
   \<and> returned (search_events_by_genre (fixed_env (HTTPStatusError 429)) ''rock'' None 5)
     = Inr ''Error: Rate limit exceeded. Please try again later.''
   \<and> returned (get_event_details (fixed_env (HTTPStatusError 429)) ''G5vYZ9'')
     = Inr ''Error: Rate limit exceeded. Please try again later.''
   \<and> returned (check_ticket_availability (fixed_env (HTTPStatusError 429)) ''G5vYZ9'')
     = Inr ''Error: Rate limit exceeded. Please try again later.''
   \<and> startswith ''Error: Rate limit exceeded. Please try again later.'' ''Error:''"
  using rate_limit_is_reported [of "fixed_env (HTTPStatusError 429)" "''Radiohead''" 5
          "''KovZ917M''" "''Austin''" "Some ''TX''" "''US''" "''rock''" None "''G5vYZ9''"
          "''events.json''" Map.empty]
  by (simp add: answered_def fixed_env_def startswith_def)

text \<open>
  C6. The venue search sends \<open>venueId\<close> and no \<open>keyword\<close> when the identifier starts with
  \<open>KovZ\<close>, and \<open>keyword\<close> and no \<open>venueId\<close> otherwise.
\<close>

theorem search_events_by_venue_filter:
  "(startswith venue ''KovZ'' \<longrightarrow>
      sent_params (search_events_by_venue env venue n) ''venueId'' = Some (JStr venue)
      \<and> sent_params (search_events_by_venue env venue n) ''keyword'' = None)
   \<and> (\<not> startswith venue ''KovZ'' \<longrightarrow>
      sent_params (search_events_by_venue env venue n) ''keyword'' = Some (JStr venue)
      \<and> sent_params (search_events_by_venue env venue n) ''venueId'' = None)"
  by (simp add: search_events_by_venue_def make_ticketmaster_request_def run_of_def
        remove_none_def Let_def)

theorem search_events_by_venue_filter_witness:
  "sent_params (search_events_by_venue (fixed_env RequestError) ''KovZ917M'' 5) ''venueId''
     = Some (JStr ''KovZ917M'')
   \<and> sent_params (search_events_by_venue (fixed_env RequestError) ''KovZ917M'' 5) ''keyword'' = None
   \<and> sent_params (search_events_by_venue (fixed_env RequestError) ''Madison Square Garden'' 5)
       ''keyword'' = Some (JStr ''Madison Square Garden'')
   \<and> sent_params (search_events_by_venue (fixed_env RequestError) ''Madison Square Garden'' 5)
       ''venueId'' = None"
  using search_events_by_venue_filter [of "''KovZ917M''" "fixed_env RequestError" 5]
        search_events_by_venue_filter [of "''Madison Square Garden''" "fixed_env RequestError" 5]
  by (simp add: startswith_def)

text \<open>
  C7. When the artist search is answered with a body that has no key \<open>error\<close> and from
  which \<open>extract_events\<close> gets nothing (an empty list), the tool returns
  \<open>No upcoming events found for artist: <artist>\<close>, which does not start with \<open>Error:\<close>.
\<close>

theorem no_events_for_artist:
  assumes "answered env (search_events_by_artist env artist n) = Response payload"
      and "py_contains ''error'' payload = Inr False"
      and "extract_events payload = Inr events"
      and "\<not> py_truthy events"
  shows "returned (search_events_by_artist env artist n)
         = Inr (''No upcoming events found for artist: '' @ artist)
         \<and> \<not> startswith (''No upcoming events found for artist: '' @ artist) ''Error:''"
proof -
  from assms(1)
  have "call_data (make_ticketmaster_request env ''events.json''
          [''keyword'' \<mapsto> JStr artist, ''size'' \<mapsto> JInt n, ''sort'' \<mapsto> JStr ''date,asc''])
        = payload"
    by (simp add: answered_def search_events_by_artist_def run_of_def
          make_ticketmaster_request_def Let_def)
  with assms(2-4) show ?thesis
    by (simp add: search_events_by_artist_def run_of_def Let_def render_events_def startswith_def)
qed

theorem no_events_for_artist_witness:
  "returned (search_events_by_artist
      (fixed_env (Response (JObj [(''_embedded'', JObj [(''events'', JArr [])])]))) ''Radiohead'' 5)
   = Inr ''No upcoming events found for artist: Radiohead''
   \<and> returned (search_events_by_artist
      (fixed_env (Response (JObj [(''page'', JObj [(''totalElements'', JInt 0)])]))) ''Radiohead'' 5)
   = Inr ''No upcoming events found for artist: Radiohead''"
  using no_events_for_artist
          [of "fixed_env (Response (JObj [(''_embedded'', JObj [(''events'', JArr [])])]))"
              "''Radiohead''" 5 "JObj [(''_embedded'', JObj [(''events'', JArr [])])]" "JArr []"]
        no_events_for_artist
          [of "fixed_env (Response (JObj [(''page'', JObj [(''totalElements'', JInt 0)])]))"
              "''Radiohead''" 5 "JObj [(''page'', JObj [(''totalElements'', JInt 0)])]" "JArr []"]
  by (simp add: answered_def fixed_env_def extract_events_def)

text \<open>
  C8, as the code has it. The tools catch nothing themselves: only the failures of the
  request are turned into texts, by the gateway. Each tool returns a text when its
  request fails in any way, and when it is answered with a body of the expected shape
  (\<open>wf_search_payload\<close> for the four searches, \<open>wf_event\<close> for the two tools on one event).
\<close>

theorem tools_return_strings:
  "(body_ok wf_search_payload (answered env (search_events_by_artist env artist n)) \<longrightarrow>
      (\<exists>s. returned (search_events_by_artist env artist n) = Inr s))
   \<and> (body_ok wf_search_payload (answered env (search_events_by_venue env venue n)) \<longrightarrow>
      (\<exists>s. returned (search_events_by_venue env venue n) = Inr s))
   \<and> (body_ok wf_search_payload (answered env (search_events_by_location env city state country n)) \<longrightarrow>
      (\<exists>s. returned (search_events_by_location env city state country n) = Inr s))
   \<and> (body_ok wf_search_payload (answered env (search_events_by_genre env genre city' n)) \<longrightarrow>
      (\<exists>s. returned (search_events_by_genre env genre city' n) = Inr s))
   \<and> (body_ok wf_event (answered env (get_event_details env event_id)) \<longrightarrow>
      (\<exists>s. returned (get_event_details env event_id) = Inr s))
   \<and> (body_ok wf_event (answered env (check_ticket_availability env event_id)) \<longrightarrow>
      (\<exists>s. returned (check_ticket_availability env event_id) = Inr s))"
proof -
  let ?search = "\<lambda>ps. make_ticketmaster_request env ''events.json'' ps"
  let ?detail = "make_ticketmaster_request env (''events/'' @ event_id @ ''.json'') Map.empty"
  have search: "\<exists>s. render_events rp (call_data (?search ps)) none_found header = Inr s"
    if "body_ok wf_search_payload (client_get env (call_url (?search ps)) (call_params (?search ps)))"
    for ps rp none_found header
    using gateway_data_shape [of wf_search_payload env "''events.json''" ps, OF that]
    by (simp only: wf_search_payload_error render_events_ok)
  have detail: "wf_event (call_data ?detail)"
    if "body_ok wf_event (client_get env (call_url ?detail) (call_params ?detail))"
    using gateway_data_shape [of wf_event env "''events/'' @ event_id @ ''.json''" Map.empty, OF that]
    by (simp only: wf_event_error)
  show ?thesis
  proof (intro conjI impI)
    assume "body_ok wf_search_payload (answered env (search_events_by_artist env artist n))"
    then show "\<exists>s. returned (search_events_by_artist env artist n) = Inr s"
      unfolding search_events_by_artist_def answered_def run_of_def Let_def tool_run.simps
      by (rule search)
  next
    assume "body_ok wf_search_payload (answered env (search_events_by_venue env venue n))"
    then show "\<exists>s. returned (search_events_by_venue env venue n) = Inr s"
      unfolding search_events_by_venue_def answered_def run_of_def Let_def tool_run.simps
      by (rule search)
  next
    assume "body_ok wf_search_payload
              (answered env (search_events_by_location env city state country n))"
    then show "\<exists>s. returned (search_events_by_location env city state country n) = Inr s"
      unfolding search_events_by_location_def answered_def run_of_def Let_def tool_run.simps
      by (rule search)
  next
    assume "body_ok wf_search_payload (answered env (search_events_by_genre env genre city' n))"
    then show "\<exists>s. returned (search_events_by_genre env genre city' n) = Inr s"
      unfolding search_events_by_genre_def answered_def run_of_def Let_def tool_run.simps
      by (rule search)
  next
    assume "body_ok wf_event (answered env (get_event_details env event_id))"
    then have "wf_event (call_data ?detail)"
      unfolding get_event_details_def answered_def run_of_def Let_def tool_run.simps
      by (rule detail)
    from details_ok [OF this, of "container_repr env"]
    show "\<exists>s. returned (get_event_details env event_id) = Inr s"
      unfolding get_event_details_def run_of_def Let_def tool_run.simps .
  next
    assume "body_ok wf_event (answered env (check_ticket_availability env event_id))"
    then have "wf_event (call_data ?detail)"
      unfolding check_ticket_availability_def answered_def run_of_def Let_def tool_run.simps
      by (rule detail)
    from availability_ok [OF this, of "container_repr env"]
    show "\<exists>s. returned (check_ticket_availability env event_id) = Inr s"
      unfolding check_ticket_availability_def run_of_def Let_def tool_run.simps .
  qed
qed

theorem tools_return_strings_witness:
  "(\<exists>s. returned (get_event_details
       (fixed_env (Response (JObj [(''name'', JStr ''Show''),
          (''dates'', JObj [(''start'', JObj [(''localDate'', JStr ''2025-07-04'')])])])))
       ''G5vYZ9'') = Inr s)
   \<and> (\<exists>s. returned (check_ticket_availability (fixed_env RequestError) ''G5vYZ9'') = Inr s)
   \<and> (\<exists>s. returned (search_events_by_artist
       (fixed_env (Response (JObj [(''_embedded'', JObj [(''events'',
          JArr [JObj [(''name'', JStr ''Show''), (''classifications'', JArr [])]])])])))
       ''Radiohead'' 5) = Inr s)"
  using tools_return_strings
     [of "fixed_env (Response (JObj [(''_embedded'', JObj [(''events'',
          JArr [JObj [(''name'', JStr ''Show''), (''classifications'', JArr [])]])])]))"
         "''Radiohead''" 5 "''KovZ917M''" "''Austin''" None "''US''" "''rock''" None "''G5vYZ9''"]
    tools_return_strings
     [of "fixed_env (Response (JObj [(''name'', JStr ''Show''),
          (''dates'', JObj [(''start'', JObj [(''localDate'', JStr ''2025-07-04'')])])]))"
         "''Radiohead''" 5 "''KovZ917M''" "''Austin''" None "''US''" "''rock''" None "''G5vYZ9''"]
    tools_return_strings
     [of "fixed_env RequestError"
         "''Radiohead''" 5 "''KovZ917M''" "''Austin''" None "''US''" "''rock''" None "''G5vYZ9''"]
  by (simp add: answered_def fixed_env_def body_ok_def wf_search_payload_def wf_event_list_def
        wf_events_def wf_event_def wf_dates_def wf_start_def wf_classifications_def is_str_def
        field_ok_def)

text \<open>
  C8 as stated fails on bodies of other shapes: with \<open>null\<close> under \<open>dates\<close>, or a number
  under \<open>classifications\<close>, the \<open>TypeError\<close> of the test \<open>"start" in event["dates"]\<close>, or of
  \<open>event["classifications"][0]\<close>, leaves the tool.
\<close>

theorem tools_return_strings_counterexample:
  "returned (get_event_details
       (fixed_env (Response (JObj [(''name'', JStr ''Show''), (''dates'', JNull)]))) ''G5vYZ9'')
   = Inl TypeError
   \<and> returned (check_ticket_availability
       (fixed_env (Response (JObj [(''name'', JStr ''Show''), (''dates'', JNull)]))) ''G5vYZ9'')
   = Inl TypeError
   \<and> returned (search_events_by_artist
       (fixed_env (Response (JObj [(''_embedded'', JObj [(''events'',
          JArr [JObj [(''name'', JStr ''Show''), (''classifications'', JInt 7)]])])])))
       ''Radiohead'' 5)
   = Inl TypeError"
  by (simp add: get_event_details_def check_ticket_availability_def search_events_by_artist_def
        run_of_def make_ticketmaster_request_def fixed_env_def Let_def render_events_def
        extract_events_def format_event_def date_info_def venue_info_def price_info_def
        ticket_info_def url_info_def genre_info_def has_truthy_def availability_status_def
        py_and_def)

text \<open>
  C9. An event object with no key \<open>embedded\<close> gets no venue line, whatever it has under
  \<open>_embedded\<close>; and whenever \<open>format_event\<close> produces a venue line, the event has a value at
  the path \<open>embedded\<close>, \<open>_embedded\<close>, \<open>venues\<close>.
\<close>

theorem venue_only_under_embedded:
  "(map_of kvs ''embedded'' = None \<longrightarrow> venue_info rp (JObj kvs) = Inr [])
   \<and> (venue_info rp event = Inr s \<and> s \<noteq> [] \<longrightarrow>
        (\<exists>vs. lookup_path [''embedded'', ''_embedded'', ''venues''] event = Some vs))"
  using venue_line_path [of rp event s] by (simp add: venue_info_no_embedded)

theorem venue_only_under_embedded_witness:
  "venue_info (\<lambda>v. [])
     (JObj [(''name'', JStr ''Show''),
            (''_embedded'', JObj [(''venues'', JArr [JObj [(''name'', JStr ''The Forum'')]])])])
   = Inr []
   \<and> lookup_path [''embedded'', ''_embedded'', ''venues'']
       (JObj [(''embedded'', JObj [(''_embedded'',
                 JObj [(''venues'', JArr [JObj [(''name'', JStr ''The Forum'')]])])])])
     = Some (JArr [JObj [(''name'', JStr ''The Forum'')]])
   \<and> venue_info (\<lambda>v. [])
       (JObj [(''embedded'', JObj [(''_embedded'',
                 JObj [(''venues'', JArr [JObj [(''name'', JStr ''The Forum'')]])])])])
     = Inr ''Venue: The Forum, \<newline>''"
proof -
  have line: "venue_info (\<lambda>v. [])
       (JObj [(''embedded'', JObj [(''_embedded'',
                 JObj [(''venues'', JArr [JObj [(''name'', JStr ''The Forum'')]])])])])
     = Inr ''Venue: The Forum, \<newline>''"
    by (simp add: venue_info_def venue_part_def py_join_def py_and_def)
  from venue_only_under_embedded
         [of "[(''name'', JStr ''Show''),
               (''_embedded'', JObj [(''venues'', JArr [JObj [(''name'', JStr ''The Forum'')]])])]"
             "\<lambda>v. []"
             "JObj [(''embedded'', JObj [(''_embedded'',
                 JObj [(''venues'', JArr [JObj [(''name'', JStr ''The Forum'')]])])])]"
             "''Venue: The Forum, \<newline>''"]
       line
  show ?thesis by simp
qed

text \<open>
  C10. After \<open>make_ticketmaster_request\<close> the caller's dict has the configured key under
  \<open>apikey\<close> and every other entry as before.
\<close>

theorem make_ticketmaster_request_params:
  "call_params (make_ticketmaster_request env endpoint params) ''apikey'' = Some (JStr (api_key env))
   \<and> (\<forall>k. k \<noteq> ''apikey'' \<longrightarrow>
         call_params (make_ticketmaster_request env endpoint params) k = params k)"
  by (simp add: make_ticketmaster_request_def Let_def)

theorem make_ticketmaster_request_params_witness:
  "call_params (make_ticketmaster_request (fixed_env RequestError) ''events.json''
       [''keyword'' \<mapsto> JStr ''Radiohead'', ''apikey'' \<mapsto> JStr ''old'']) ''apikey''
     = Some (JStr ''k3y'')
   \<and> call_params (make_ticketmaster_request (fixed_env RequestError) ''events.json''
       [''keyword'' \<mapsto> JStr ''Radiohead'', ''apikey'' \<mapsto> JStr ''old'']) ''keyword''
     = Some (JStr ''Radiohead'')
   \<and> call_params (make_ticketmaster_request (fixed_env RequestError) ''events.json''
       [''keyword'' \<mapsto> JStr ''Radiohead'', ''apikey'' \<mapsto> JStr ''old'']) ''size''
     = None"
proof -
  note it = make_ticketmaster_request_params [of "fixed_env RequestError" "''events.json''"
              "[''keyword'' \<mapsto> JStr ''Radiohead'', ''apikey'' \<mapsto> JStr ''old'']"]
  from it have "call_params (make_ticketmaster_request (fixed_env RequestError) ''events.json''
       [''keyword'' \<mapsto> JStr ''Radiohead'', ''apikey'' \<mapsto> JStr ''old'']) ''apikey''
     = Some (JStr ''k3y'')"
    by (simp add: fixed_env_def)
  moreover from it [THEN conjunct2, THEN spec, of "''keyword''"]
  have "call_params (make_ticketmaster_request (fixed_env RequestError) ''events.json''
       [''keyword'' \<mapsto> JStr ''Radiohead'', ''apikey'' \<mapsto> JStr ''old'']) ''keyword''
     = Some (JStr ''Radiohead'')"
    by simp
  moreover from it [THEN conjunct2, THEN spec, of "''size''"]
  have "call_params (make_ticketmaster_request (fixed_env RequestError) ''events.json''
       [''keyword'' \<mapsto> JStr ''Radiohead'', ''apikey'' \<mapsto> JStr ''old'']) ''size''
     = None"
    by simp
  ultimately show ?thesis by simp
qed

end
